theory Spec2Isabelle
  imports Main "HOL-Library.Word" "HOL-Library.Multiset"
begin

section \<open>The acknowledgement engine (packages/hazel/src/client/v1/packetPromise.ts)\<close>

text \<open>
  \<^verbatim>\<open>PacketAcknowledgementPromise\<close> wraps one reliable packet. Its callbacks are
  opaque to the class, so a callback is modelled by its identity (a number) and its
  invocation by an effect in the trace. A JavaScript \<^verbatim>\<open>Set\<close> keeps insertion order
  and ignores a second \<^verbatim>\<open>add\<close> of the same element: a list without duplicates.
  The interval timer of the runtime is a period and a flag that \<^verbatim>\<open>clearInterval\<close>
  clears; the field \<open>clock\<close> is the runtime's time, advanced by one period when
  the timer expires.
\<close>

type_synonym listener = nat

datatype 'p ack_effect =
    ClientWrite nat 'p
  | ClearInterval
  | ResolveListenerCalled listener
  | RejectListenerCalled listener string

record interval_timer =
  period :: nat
  armed :: bool

record 'p PacketAcknowledgementPromise =
  packet :: 'p
  resolveListeners :: "listener list"
  rejectListeners :: "listener list"
  sendCount :: nat
  timeout :: interval_timer
  clock :: nat
  effects :: "'p ack_effect list"

definition set_add :: "'a \<Rightarrow> 'a list \<Rightarrow> 'a list" where
  "set_add x xs = (if x \<in> set xs then xs else xs @ [x])"

definition emit :: "'p ack_effect list \<Rightarrow> 'p PacketAcknowledgementPromise \<Rightarrow> 'p PacketAcknowledgementPromise" where
  "emit es this = this\<lparr>effects := effects this @ es\<rparr>"

definition resolve :: "'p PacketAcknowledgementPromise \<Rightarrow> 'p PacketAcknowledgementPromise" where
  "resolve this = emit (map ResolveListenerCalled (resolveListeners this)) this"

definition reject :: "string \<Rightarrow> 'p PacketAcknowledgementPromise \<Rightarrow> 'p PacketAcknowledgementPromise" where
  "reject reason this = emit (map (\<lambda>l. RejectListenerCalled l reason) (rejectListeners this)) this"

definition incrementSendCount :: "'p PacketAcknowledgementPromise \<Rightarrow> 'p PacketAcknowledgementPromise" where
  "incrementSendCount this = this\<lparr>sendCount := sendCount this + 1\<rparr>"

definition cleanup :: "'p PacketAcknowledgementPromise \<Rightarrow> 'p PacketAcknowledgementPromise" where
  "cleanup this = emit [ClearInterval] (this\<lparr>timeout := (timeout this)\<lparr>armed := False\<rparr>\<rparr>)"

definition setResolved :: "'p PacketAcknowledgementPromise \<Rightarrow> 'p PacketAcknowledgementPromise" where
  "setResolved this = resolve (cleanup this)"

definition setDropped :: "'p PacketAcknowledgementPromise \<Rightarrow> 'p PacketAcknowledgementPromise" where
  "setDropped this = reject ''Packet was not acked'' (cleanup this)"

definition attemptSend :: "'p PacketAcknowledgementPromise \<Rightarrow> 'p PacketAcknowledgementPromise" where
  "attemptSend this =
     (let this = incrementSendCount this
      in emit [ClientWrite (clock this) (packet this)] this)"

text \<open>The callback handed to \<^verbatim>\<open>setInterval\<close> in the constructor.\<close>

definition interval_callback :: "'p PacketAcknowledgementPromise \<Rightarrow> 'p PacketAcknowledgementPromise" where
  "interval_callback this =
     (if sendCount this = 10 then setDropped this else attemptSend this)"

text \<open>The constructor, run at time \<open>now\<close>: arm the timer, then send.\<close>

definition new_PacketAcknowledgementPromise :: "'p \<Rightarrow> nat \<Rightarrow> 'p PacketAcknowledgementPromise" where
  "new_PacketAcknowledgementPromise pkt now =
     attemptSend
       \<lparr>packet = pkt, resolveListeners = [], rejectListeners = [], sendCount = 0,
        timeout = \<lparr>period = 2000, armed = True\<rparr>, clock = now, effects = []\<rparr>"

definition then_p :: "listener \<Rightarrow> listener option \<Rightarrow> 'p PacketAcknowledgementPromise \<Rightarrow> 'p PacketAcknowledgementPromise" where
  "then_p onFulfilled onRejected this =
     (let this = (case onRejected of
                    Some r \<Rightarrow> this\<lparr>rejectListeners := set_add r (rejectListeners this)\<rparr>
                  | None \<Rightarrow> this)
      in this\<lparr>resolveListeners := set_add onFulfilled (resolveListeners this)\<rparr>)"

definition catch_p :: "listener \<Rightarrow> 'p PacketAcknowledgementPromise \<Rightarrow> 'p PacketAcknowledgementPromise" where
  "catch_p onRejected this = this\<lparr>rejectListeners := set_add onRejected (rejectListeners this)\<rparr>"

text \<open>
  What can happen to an engine after its construction: the runtime's timer expires
  (one period later; nothing runs when the timer has been cleared), the owner marks the
  packet resolved, or somebody registers continuations.
\<close>

datatype ack_event =
    TimerExpires
  | SetResolved
  | Then listener "listener option"
  | Catch listener

definition timer_expires :: "'p PacketAcknowledgementPromise \<Rightarrow> 'p PacketAcknowledgementPromise" where
  "timer_expires this =
     (if armed (timeout this)
      then interval_callback (this\<lparr>clock := clock this + period (timeout this)\<rparr>)
      else this)"

fun ack_step :: "'p PacketAcknowledgementPromise \<Rightarrow> ack_event \<Rightarrow> 'p PacketAcknowledgementPromise" where
  "ack_step this TimerExpires = timer_expires this"
| "ack_step this SetResolved = setResolved this"
| "ack_step this (Then f r) = then_p f r this"
| "ack_step this (Catch r) = catch_p r this"

definition ack_run :: "ack_event list \<Rightarrow> 'p PacketAcknowledgementPromise \<Rightarrow> 'p PacketAcknowledgementPromise" where
  "ack_run evs this = foldl ack_step this evs"

fun is_write :: "'p ack_effect \<Rightarrow> bool" where
  "is_write (ClientWrite _ _) = True"
| "is_write _ = False"

definition writes :: "'p PacketAcknowledgementPromise \<Rightarrow> 'p ack_effect list" where
  "writes this = filter is_write (effects this)"


section \<open>The DTLS client handshake (class \<^verbatim>\<open>DtlsSocket\<close>)\<close>

subsection \<open>Data\<close>

type_synonym bytes = "8 word list"

datatype HandshakeState =
    Initializing
  | ExpectingServerHello
  | ExpectingCertificate
  | ExpectingServerKeyExchange
  | ExpectingServerHelloDone
  | ExpectingChangeCipherSpec

text \<open>
  Modelled from the spec: the enumerations \<^verbatim>\<open>ContentType\<close>, \<^verbatim>\<open>HandshakeType\<close>,
  \<^verbatim>\<open>CipherSuite\<close> and \<^verbatim>\<open>ProtocolVersion\<close> are imported from files that are not
  under src. Their members are the ones the spec lists (section 6) and the class names;
  the numeric code points are not needed. \<open>OtherHandshakeType\<close> and
  \<open>OtherCipherSuite\<close> stand for every member the class never names.
\<close>

datatype ContentType = ChangeCipherSpec | Alert | Handshake | ApplicationData

datatype HandshakeType =
    ClientHello_t
  | HelloVerifyRequest_t
  | ServerHello_t
  | Certificate_t
  | ServerKeyExchange_t
  | ServerHelloDone_t
  | ClientKeyExchange_t
  | Finished_t
  | OtherHandshakeType nat

datatype CipherSuite =
    TLS_NULL_WITH_NULL_NULL
  | TLS_ECDHE_RSA_WITH_AES_128_GCM_SHA256
  | OtherCipherSuite nat

datatype ProtocolVersion = Obfuscated

type_synonym Random = bytes

datatype X25519EcdheRsaSha256 = New_X25519EcdheRsaSha256

text \<open>A parsed certificate (\<^verbatim>\<open>forge.pki.Certificate\<close>): only its public key is read.\<close>

record ForgeCertificate =
  publicKey :: "bytes option"

text \<open>The record-protection object is the three arguments of its constructor.\<close>

record Aes128GcmRecordProtection =
  rpMasterSecret :: bytes
  rpServerRandom :: bytes
  rpClientRandom :: bytes

record EpochState =
  epochState_epoch :: nat
  state :: HandshakeState
  clientRandom :: Random
  serverRandom :: Random
  selectedCipherSuite :: CipherSuite
  cookie :: bytes
  handshake :: "X25519EcdheRsaSha256 option"
  serverCertificate :: "ForgeCertificate option"
  recordProtection :: "Aes128GcmRecordProtection option"
  masterSecret :: bytes
  serverVerification :: bytes
  certificateFragments :: "bytes option"
  certificateFragmentDataRecv :: nat
  certificatePayload :: bytes

text \<open>
  Inbound messages. A \<^verbatim>\<open>HandshakeReader\<close> is what its getters return;
  \<open>buffer\<close> is the fragment's bytes (\<^verbatim>\<open>getBuffer()\<close>). An inbound
  \<^verbatim>\<open>DtlsRecordReader\<close> is its content type together with what the codecs read from
  it: the alert of \<^verbatim>\<open>AlertPacket.deserialize\<close>, and the handshake messages that the
  successive \<^verbatim>\<open>message.read(HandshakeReader)\<close> return until no bytes are left.
\<close>

record HandshakeReader =
  handshakeType :: HandshakeType
  fullLength :: nat
  messageSequence :: nat
  fragmentOffset :: nat
  buffer :: bytes

record AlertPacket =
  isFatal :: bool
  alertToString :: string

record DtlsRecordReader =
  contentType :: ContentType
  alertPacket :: AlertPacket
  handshakeMessages :: "HandshakeReader list"

record HelloVerifyRequest =
  hvrCookie :: bytes

record ServerHello =
  shCipherSuite :: CipherSuite

record ServerKeyExchange =
  curveType :: nat
  selectedCurve :: nat
  hashAlgorithm :: nat
  signatureAlgorithm :: nat
  skeKey :: bytes
  skeSignature :: bytes

text \<open>Outbound messages, each the arguments of its constructor.\<close>

record Extension =
  extensionType :: nat
  extensionData :: bytes

record ClientHello =
  chProtocolVersion :: ProtocolVersion
  chRandom :: Random
  chSessionInfo :: nat
  chCookie :: bytes
  chCipherSuites :: "CipherSuite list"
  chCompressionMethods :: "nat list"
  chExtensions :: "Extension list"

record ClientKeyExchange =
  ckePublicKey :: bytes

datatype handshake_message =
    ClientHelloMessage ClientHello
  | ClientKeyExchangeMessage ClientKeyExchange

fun getType :: "handshake_message \<Rightarrow> HandshakeType" where
  "getType (ClientHelloMessage _) = ClientHello_t"
| "getType (ClientKeyExchangeMessage _) = ClientKeyExchange_t"

text \<open>
  Modelled from the spec: \<^verbatim>\<open>HandshakeReader.fromHandshake\<close> and
  \<^verbatim>\<open>DtlsRecordReader.fromRecord\<close> are not under src. The objects they build are
  modelled by the arguments of the call. The five arguments of \<^verbatim>\<open>fromHandshake\<close>
  are read, after the handshake header of the spec (message type, total length, message
  sequence number, fragment offset, fragment length, fragment payload), as message
  type, message sequence number, fragment offset, fragment length and payload; the
  five of \<^verbatim>\<open>fromRecord\<close> as content type, protocol version, epoch, sequence number and
  payload.
\<close>

record OutboundHandshake =
  outType :: HandshakeType
  outMessageSequence :: nat
  outFragmentOffset :: nat
  outFragmentLength :: nat
  outBuffer :: bytes

definition HandshakeReader_fromHandshake ::
  "HandshakeType \<Rightarrow> nat \<Rightarrow> nat \<Rightarrow> nat \<Rightarrow> bytes \<Rightarrow> OutboundHandshake" where
  "HandshakeReader_fromHandshake t sq off len buf =
     \<lparr>outType = t, outMessageSequence = sq, outFragmentOffset = off,
      outFragmentLength = len, outBuffer = buf\<rparr>"

record DtlsRecord =
  recContentType :: ContentType
  recProtocolVersion :: ProtocolVersion
  recEpoch :: nat
  recSequenceNumber :: nat
  recPayload :: bytes

definition DtlsRecordReader_fromRecord ::
  "ContentType \<Rightarrow> ProtocolVersion \<Rightarrow> nat \<Rightarrow> nat \<Rightarrow> bytes \<Rightarrow> DtlsRecord" where
  "DtlsRecordReader_fromRecord t v e sq payload =
     \<lparr>recContentType = t, recProtocolVersion = v, recEpoch = e,
      recSequenceNumber = sq, recPayload = payload\<rparr>"

text \<open>
  The exceptions that leave a method of the class: the two of the runtime, and the
  \<^verbatim>\<open>Error\<close> that \<^verbatim>\<open>forge\<close> raises when it cannot decode a signature.
\<close>

datatype error = TypeError | RangeError | ForgeError

text \<open>
  The external collaborators: the wire codecs and the cryptographic primitives, which
  the class imports and which are out of the spec's scope. Every function of the class
  takes them as the parameter \<open>x\<close>. \<open>rsa_verify key digest signature\<close> is the
  RSASSA-PKCS1-v1.5 verification of \<^verbatim>\<open>forge\<close>: it returns true or false for a
  signature it can decode and raises for one it cannot (wrong length, broken padding,
  no digest inside), which is the value \<open>None\<close> here.
  \<open>expandSecret secret label seed\<close> is the label-based expansion.
\<close>

record externals =
  Random_NULL :: Random
  HelloVerifyRequest_deserialize :: "HandshakeReader \<Rightarrow> HelloVerifyRequest"
  ServerHello_deserialize :: "HandshakeReader \<Rightarrow> ServerHello"
  Certificate_deserialize :: "bytes \<Rightarrow> ForgeCertificate"
  ServerKeyExchange_deserialize :: "HandshakeReader \<Rightarrow> ServerKeyExchange"
  ServerKeyExchange_serialize :: "ServerKeyExchange \<Rightarrow> bytes"
  ClientHello_serialize :: "ClientHello \<Rightarrow> bytes"
  ClientKeyExchange_serialize :: "ClientKeyExchange \<Rightarrow> bytes"
  EllipticCurveExtensionData_serialize :: "nat list \<Rightarrow> bytes"
  Handshake_serialize :: "OutboundHandshake \<Rightarrow> bytes"
  DtlsRecord_serialize :: "DtlsRecord \<Rightarrow> bytes"
  sha256_digest :: "bytes \<Rightarrow> bytes"
  rsa_verify :: "bytes \<Rightarrow> bytes \<Rightarrow> bytes \<Rightarrow> bool option"
  x25519_scalarMult :: "bytes \<Rightarrow> bytes \<Rightarrow> bytes"
  x25519_scalarMultBase :: "bytes \<Rightarrow> bytes"
  expandSecret :: "bytes \<Rightarrow> bytes \<Rightarrow> bytes \<Rightarrow> bytes"
  encryptClientPlaintext :: "Aes128GcmRecordProtection \<Rightarrow> DtlsRecord \<Rightarrow> DtlsRecord"

fun serialize :: "externals \<Rightarrow> handshake_message \<Rightarrow> bytes" where
  "serialize x (ClientHelloMessage h) = ClientHello_serialize x h"
| "serialize x (ClientKeyExchangeMessage k) = ClientKeyExchange_serialize x k"


subsection \<open>The socket\<close>

text \<open>
  What the class does to the outside is recorded in a trace: its log lines, its writes
  to the transport socket, the buffers it hands to \<^verbatim>\<open>Certificate.deserialize\<close>
  (so that the number of deserializations can be stated), and its calls of disconnect
  handlers other than a promise's \<^verbatim>\<open>rej\<close>.
\<close>

datatype effect =
    ConsoleLog string
  | SocketSend bytes
  | CertificateDeserialize bytes
  | DisconnectHandlerCalled nat string

text \<open>
  A JavaScript promise is pending until the first call of its \<^verbatim>\<open>res\<close> or
  \<^verbatim>\<open>rej\<close>; later calls do nothing. A disconnect handler is either the \<^verbatim>\<open>rej\<close> of
  one of the socket's connect promises or a callback of the caller's.
\<close>

datatype promise_state = Pending | Fulfilled | Rejected string

datatype disconnect_handler = PromiseRej nat | HandlerCallback nat

text \<open>
  The fields \<^verbatim>\<open>recieveHandlers\<close>, \<^verbatim>\<open>packetHandlers\<close> and \<^verbatim>\<open>recieveMap\<close> are
  left out: no method that handles a record or sends one reads or writes them. The
  JavaScript numbers are counters that only grow by one, modelled as \<open>nat\<close>.
\<close>

record DtlsSocket =
  disconnectHandlers :: "disconnect_handler list"
  protocolVersion :: ProtocolVersion
  epoch :: nat
  sequenceNumber :: nat
  epochState :: EpochState
  handshakeSequence :: nat
  messagesBuffer :: "bytes list"
  promises :: "promise_state list"
  trace :: "effect list"

definition console_log :: "string \<Rightarrow> DtlsSocket \<Rightarrow> DtlsSocket" where
  "console_log msg this = this\<lparr>trace := trace this @ [ConsoleLog msg]\<rparr>"

definition socket_send :: "bytes \<Rightarrow> DtlsSocket \<Rightarrow> DtlsSocket" where
  "socket_send binary this = this\<lparr>trace := trace this @ [SocketSend binary]\<rparr>"

fun HandshakeState_name :: "HandshakeState \<Rightarrow> string" where
  "HandshakeState_name Initializing = ''Initializing''"
| "HandshakeState_name ExpectingServerHello = ''ExpectingServerHello''"
| "HandshakeState_name ExpectingCertificate = ''ExpectingCertificate''"
| "HandshakeState_name ExpectingServerKeyExchange = ''ExpectingServerKeyExchange''"
| "HandshakeState_name ExpectingServerHelloDone = ''ExpectingServerHelloDone''"
| "HandshakeState_name ExpectingChangeCipherSpec = ''ExpectingChangeCipherSpec''"

fun ContentType_name :: "ContentType \<Rightarrow> string" where
  "ContentType_name ChangeCipherSpec = ''ChangeCipherSpec''"
| "ContentType_name Alert = ''Alert''"
| "ContentType_name Handshake = ''Handshake''"
| "ContentType_name ApplicationData = ''ApplicationData''"

fun HandshakeType_name :: "HandshakeType \<Rightarrow> string" where
  "HandshakeType_name ClientHello_t = ''ClientHello''"
| "HandshakeType_name HelloVerifyRequest_t = ''HelloVerifyRequest''"
| "HandshakeType_name ServerHello_t = ''ServerHello''"
| "HandshakeType_name Certificate_t = ''Certificate''"
| "HandshakeType_name ServerKeyExchange_t = ''ServerKeyExchange''"
| "HandshakeType_name ServerHelloDone_t = ''ServerHelloDone''"
| "HandshakeType_name ClientKeyExchange_t = ''ClientKeyExchange''"
| "HandshakeType_name Finished_t = ''Finished''"
| "HandshakeType_name (OtherHandshakeType _) = ''undefined''"

text \<open>\<^verbatim>\<open>resetConnectionState\<close>; \<open>rnd\<close> is the value of \<^verbatim>\<open>Random.generate()\<close>.\<close>

definition resetConnectionState :: "externals \<Rightarrow> Random \<Rightarrow> DtlsSocket \<Rightarrow> DtlsSocket" where
  "resetConnectionState x rnd this =
     this\<lparr>epochState :=
       \<lparr>epochState_epoch = 1,
        state = Initializing,
        clientRandom = rnd,
        serverRandom = Random_NULL x,
        selectedCipherSuite = TLS_NULL_WITH_NULL_NULL,
        cookie = [],
        handshake = None,
        serverCertificate = None,
        recordProtection = None,
        masterSecret = [],
        serverVerification = [],
        certificateFragments = None,
        certificateFragmentDataRecv = 0,
        certificatePayload = []\<rparr>\<rparr>"

text \<open>
  The constructor: the field initialisers, then \<^verbatim>\<open>resetConnectionState\<close>. The epoch
  state is unset before the reset, so the model starts from the reset's value.
\<close>

definition new_DtlsSocket :: "externals \<Rightarrow> Random \<Rightarrow> DtlsSocket" where
  "new_DtlsSocket x rnd =
     resetConnectionState x rnd
       \<lparr>disconnectHandlers = [],
        protocolVersion = Obfuscated,
        epoch = 0,
        sequenceNumber = 1,
        epochState =
          \<lparr>epochState_epoch = 1, state = Initializing, clientRandom = rnd,
           serverRandom = Random_NULL x, selectedCipherSuite = TLS_NULL_WITH_NULL_NULL,
           cookie = [], handshake = None, serverCertificate = None,
           recordProtection = None, masterSecret = [], serverVerification = [],
           certificateFragments = None, certificateFragmentDataRecv = 0,
           certificatePayload = []\<rparr>,
        handshakeSequence = 0,
        messagesBuffer = [],
        promises = [],
        trace = []\<rparr>"

definition addDisconnectHandler :: "disconnect_handler \<Rightarrow> DtlsSocket \<Rightarrow> DtlsSocket" where
  "addDisconnectHandler handler this =
     this\<lparr>disconnectHandlers := set_add handler (disconnectHandlers this)\<rparr>"

fun call_handler :: "string \<Rightarrow> DtlsSocket \<Rightarrow> disconnect_handler \<Rightarrow> DtlsSocket" where
  "call_handler reason this (PromiseRej i) =
     (if i < length (promises this) \<and> promises this ! i = Pending
      then this\<lparr>promises := (promises this)[i := Rejected reason]\<rparr>
      else this)"
| "call_handler reason this (HandlerCallback c) =
     this\<lparr>trace := trace this @ [DisconnectHandlerCalled c reason]\<rparr>"

definition emitDisconnect :: "string \<Rightarrow> DtlsSocket \<Rightarrow> DtlsSocket" where
  "emitDisconnect reason this = foldl (call_handler reason) this (disconnectHandlers this)"

definition incrementEpoch :: "DtlsSocket \<Rightarrow> DtlsSocket" where
  "incrementEpoch this = this\<lparr>epoch := epoch this + 1, sequenceNumber := 1\<rparr>"

definition sendDtlsMessage :: "externals \<Rightarrow> ContentType \<Rightarrow> bytes \<Rightarrow> DtlsSocket \<Rightarrow> DtlsSocket" where
  "sendDtlsMessage x type message this =
     (let writer = DtlsRecordReader_fromRecord type (protocolVersion this) (epoch this)
                     (sequenceNumber this) message;
          this = this\<lparr>sequenceNumber := sequenceNumber this + 1\<rparr>;
          this = this\<lparr>messagesBuffer := messagesBuffer this @ [DtlsRecord_serialize x writer]\<rparr>
      in socket_send (DtlsRecord_serialize x writer) this)"

text \<open>
  The handshake header that \<^verbatim>\<open>sendHandshakeMessage\<close> builds for one message when the
  handshake-message sequence number is \<open>sq\<close>.
\<close>

definition handshakeReader_of :: "externals \<Rightarrow> nat \<Rightarrow> handshake_message \<Rightarrow> OutboundHandshake" where
  "handshakeReader_of x sq message =
     (let buf = serialize x message
      in HandshakeReader_fromHandshake (getType message) sq 0 (length buf) buf)"

text \<open>The loop of \<^verbatim>\<open>sendHandshakeMessage\<close>; \<open>writer\<close> is the \<^verbatim>\<open>BinaryWriter\<close>.\<close>

fun sendHandshakeMessage_loop ::
  "externals \<Rightarrow> handshake_message list \<Rightarrow> bytes \<Rightarrow> DtlsSocket \<Rightarrow> bytes \<times> DtlsSocket" where
  "sendHandshakeMessage_loop x [] writer this = (writer, this)"
| "sendHandshakeMessage_loop x (message # messages) writer this =
     (let handshakeReader = handshakeReader_of x (handshakeSequence this) message;
          this = this\<lparr>handshakeSequence := handshakeSequence this + 1\<rparr>
      in sendHandshakeMessage_loop x messages
           (writer @ Handshake_serialize x handshakeReader) this)"

definition sendHandshakeMessage :: "externals \<Rightarrow> handshake_message list \<Rightarrow> DtlsSocket \<Rightarrow> DtlsSocket" where
  "sendHandshakeMessage x messages this =
     (case sendHandshakeMessage_loop x messages [] this of
        (writer, this) \<Rightarrow> sendDtlsMessage x Handshake writer this)"

definition new_ClientHello :: "externals \<Rightarrow> DtlsSocket \<Rightarrow> ClientHello" where
  "new_ClientHello x this =
     \<lparr>chProtocolVersion = protocolVersion this,
      chRandom = clientRandom (epochState this),
      chSessionInfo = 1,
      chCookie = cookie (epochState this),
      chCipherSuites = [TLS_ECDHE_RSA_WITH_AES_128_GCM_SHA256],
      chCompressionMethods = [0],
      chExtensions =
        [\<lparr>extensionType = 10,
          extensionData = EllipticCurveExtensionData_serialize x [0x001d]\<rparr>]\<rparr>"

definition sendClientHello :: "externals \<Rightarrow> bool \<Rightarrow> DtlsSocket \<Rightarrow> DtlsSocket" where
  "sendClientHello x retransmitting this =
     (let this = sendHandshakeMessage x [ClientHelloMessage (new_ClientHello x this)] this
      in if \<not> retransmitting
         then this\<lparr>epochState := (epochState this)\<lparr>state := ExpectingServerHello\<rparr>\<rparr>
         else this)"


subsection \<open>The final client flight\<close>

definition new_ClientKeyExchange :: "externals \<Rightarrow> DtlsSocket \<Rightarrow> ClientKeyExchange" where
  "new_ClientKeyExchange x this =
     \<lparr>ckePublicKey = x25519_scalarMultBase x (clientRandom (epochState this))\<rparr>"

text \<open>
  The two handshake headers of \<^verbatim>\<open>sendClientKeyExchangeFlight\<close>, its locals
  \<^verbatim>\<open>handshakeReader\<close> and \<^verbatim>\<open>handshakeReader2\<close>, each as a function of the socket
  at the moment the header is built.
\<close>

definition flight_handshakeReader :: "externals \<Rightarrow> DtlsSocket \<Rightarrow> OutboundHandshake" where
  "flight_handshakeReader x this =
     (let cke = ClientKeyExchangeMessage (new_ClientKeyExchange x this);
          buf = serialize x cke
      in HandshakeReader_fromHandshake (getType cke) (handshakeSequence this) 0 (length buf) buf)"

definition flight_handshakeReader2 :: "DtlsSocket \<Rightarrow> OutboundHandshake" where
  "flight_handshakeReader2 this =
     HandshakeReader_fromHandshake Finished_t (handshakeSequence this) 0 0 [1]"

text \<open>
  \<^verbatim>\<open>sendClientKeyExchangeFlight\<close>. The non-null assertion on the record protection
  is a \<^verbatim>\<open>TypeError\<close> at run time when the field is unset; the member is read before
  the arguments of the call are evaluated.
\<close>

definition sendClientKeyExchangeFlight :: "externals \<Rightarrow> DtlsSocket \<Rightarrow> error + DtlsSocket" where
  "sendClientKeyExchangeFlight x this =
     (let handshakeReader = flight_handshakeReader x this;
          this = this\<lparr>handshakeSequence := handshakeSequence this + 1\<rparr>;
          cker = DtlsRecordReader_fromRecord Handshake (protocolVersion this) (epoch this)
                   (sequenceNumber this) (Handshake_serialize x handshakeReader);
          this = this\<lparr>sequenceNumber := sequenceNumber this + 1\<rparr>;
          ccsr = DtlsRecordReader_fromRecord ChangeCipherSpec (protocolVersion this) (epoch this)
                   (sequenceNumber this) [1];
          this = this\<lparr>sequenceNumber := sequenceNumber this + 1\<rparr>;
          this = incrementEpoch this;
          handshakeReader2 = flight_handshakeReader2 this;
          this = this\<lparr>handshakeSequence := handshakeSequence this + 1\<rparr>
      in case recordProtection (epochState this) of
           None \<Rightarrow> Inl TypeError
         | Some rp \<Rightarrow>
             (let fhr = encryptClientPlaintext x rp
                          (DtlsRecordReader_fromRecord Handshake (protocolVersion this) (epoch this)
                             (sequenceNumber this) (Handshake_serialize x handshakeReader2));
                  this = this\<lparr>sequenceNumber := sequenceNumber this + 1\<rparr>;
                  serializedCker = DtlsRecord_serialize x cker;
                  serializedCcsr = DtlsRecord_serialize x ccsr;
                  serializedFhr = DtlsRecord_serialize x fhr
              in Inr (socket_send (serializedCker @ serializedCcsr @ serializedFhr) this)))"

subsection \<open>The handlers\<close>

definition handleServerHelloDone :: "externals \<Rightarrow> DtlsSocket \<Rightarrow> error + DtlsSocket" where
  "handleServerHelloDone x this =
     (if state (epochState this) \<noteq> ExpectingServerHelloDone
      then Inr (console_log ''invalid state'' this)
      else sendClientKeyExchangeFlight x
             (this\<lparr>epochState := (epochState this)\<lparr>state := ExpectingChangeCipherSpec\<rparr>\<rparr>))"

definition TextEncoder_encode :: "string \<Rightarrow> bytes" where
  "TextEncoder_encode str = map (\<lambda>c. of_nat (of_char c)) str"

text \<open>
  \<^verbatim>\<open>handleServerKeyExchange\<close>. The stored certificate's public key is used without
  a check (a \<^verbatim>\<open>TypeError\<close> when it is unset; \<^verbatim>\<open>handleCertificate\<close> stores no such
  certificate). The call of \<^verbatim>\<open>verify\<close> is not inside a \<^verbatim>\<open>try\<close>: what it
  raises leaves the method. The seed writer is allocated for 64 bytes and receives the
  two randoms, 32 bytes each, client first.
\<close>

definition handleServerKeyExchange ::
  "externals \<Rightarrow> ServerKeyExchange \<Rightarrow> DtlsSocket \<Rightarrow> error + DtlsSocket" where
  "handleServerKeyExchange x keyExchange this =
     (if curveType keyExchange \<noteq> 0x03 then Inr (console_log ''Unsupported curve type'' this)
      else if selectedCurve keyExchange \<noteq> 0x001d
        then Inr (console_log ''Unsupported selected curve'' this)
      else if hashAlgorithm keyExchange \<noteq> 0x04
        then Inr (console_log ''Unsupported hash algorithm'' this)
      else if signatureAlgorithm keyExchange \<noteq> 0x01
        then Inr (console_log ''Unsupported signature algorithm'' this)
      else case serverCertificate (epochState this) of
        None \<Rightarrow> Inr (console_log ''state error: missing public key'' this)
      | Some certificate \<Rightarrow>
         (case publicKey certificate of
            None \<Rightarrow> Inl TypeError
          | Some rsaKey \<Rightarrow>
             (let keyAndParameters =
                    take (4 + length (skeKey keyExchange)) (ServerKeyExchange_serialize x keyExchange);
                  md = sha256_digest x keyAndParameters
              in case rsa_verify x rsaKey md (skeSignature keyExchange) of
                   None \<Rightarrow> Inl ForgeError
                 | Some result \<Rightarrow>
                 if \<not> result then Inr (console_log ''signature failure'' this)
                 else
                  (let res = x25519_scalarMult x (clientRandom (epochState this)) (skeKey keyExchange);
                       randomSeed = clientRandom (epochState this) @ serverRandom (epochState this);
                       masterSecret' = expandSecret x res (TextEncoder_encode ''master secert'') randomSeed
                   in if selectedCipherSuite (epochState this) = TLS_ECDHE_RSA_WITH_AES_128_GCM_SHA256
                      then
                        (let this = this\<lparr>epochState := (epochState this)\<lparr>recordProtection :=
                                      Some \<lparr>rpMasterSecret = masterSecret',
                                            rpServerRandom = serverRandom (epochState this),
                                            rpClientRandom = clientRandom (epochState this)\<rparr>\<rparr>\<rparr>;
                             this = this\<lparr>epochState := (epochState this)\<lparr>state := ExpectingServerHelloDone\<rparr>\<rparr>
                         in Inr (this\<lparr>epochState := (epochState this)\<lparr>masterSecret := masterSecret'\<rparr>\<rparr>))
                      else Inr (console_log ''Unsupported cipher suite'' this)))))"

definition handleCertificate :: "ForgeCertificate \<Rightarrow> DtlsSocket \<Rightarrow> DtlsSocket" where
  "handleCertificate certificate this =
     (case publicKey certificate of
        None \<Rightarrow>
          console_log ''Dropping malfomed Certificate message: Certificate is not RSA signed'' this
      | Some _ \<Rightarrow>
          (let this = this\<lparr>epochState := (epochState this)\<lparr>serverCertificate := Some certificate\<rparr>\<rparr>
           in this\<lparr>epochState := (epochState this)\<lparr>state := ExpectingServerKeyExchange\<rparr>\<rparr>))"

definition handleServerHello :: "ServerHello \<Rightarrow> DtlsSocket \<Rightarrow> DtlsSocket" where
  "handleServerHello hello this =
     (if state (epochState this) \<noteq> ExpectingServerHello
      then console_log (''Dropping unexpected ServerHello handshake message. State(''
                          @ HandshakeState_name (state (epochState this)) @ '')'') this
      else
       (let this =
              (if shCipherSuite hello = TLS_ECDHE_RSA_WITH_AES_128_GCM_SHA256
               then this\<lparr>epochState := (epochState this)\<lparr>handshake := Some New_X25519EcdheRsaSha256\<rparr>\<rparr>
               else console_log ''Dropping malformed ServerHello message. Unsupported CiperSuite'' this)
        in this\<lparr>epochState := (epochState this)
                  \<lparr>selectedCipherSuite := shCipherSuite hello,
                   state := ExpectingCertificate,
                   certificateFragments := None,
                   certificateFragmentDataRecv := 0,
                   certificatePayload := []\<rparr>\<rparr>))"

definition handleHelloVerifyRequest ::
  "externals \<Rightarrow> HelloVerifyRequest \<Rightarrow> DtlsSocket \<Rightarrow> DtlsSocket" where
  "handleHelloVerifyRequest x request this =
     (if state (epochState this) \<noteq> ExpectingServerHello
      then console_log (''Dropping unexpected HelloVerifyRequest handshake message. State(''
                          @ HandshakeState_name (state (epochState this)) @ '')'') this
      else if cookie (epochState this) = hvrCookie request
      then console_log ''Dropping duplicate HelloVerifyRequest handshake message'' this
      else sendClientHello x False
             (this\<lparr>epochState := (epochState this)\<lparr>cookie := hvrCookie request\<rparr>\<rparr>))"


subsection \<open>Dispatch and certificate reassembly\<close>

text \<open>
  \<^verbatim>\<open>new Uint8Array(target).set(source, offset)\<close>: a \<^verbatim>\<open>RangeError\<close> when the source
  does not fit behind the offset, otherwise the source's bytes replace the target's
  from the offset on.
\<close>

definition Uint8Array_set :: "bytes \<Rightarrow> bytes \<Rightarrow> nat \<Rightarrow> error + bytes" where
  "Uint8Array_set target source off =
     (if off + length source > length target then Inl RangeError
      else Inr (take off target @ source @ drop (off + length source) target))"

definition deserialize_certificate :: "externals \<Rightarrow> bytes \<Rightarrow> DtlsSocket \<Rightarrow> ForgeCertificate \<times> DtlsSocket" where
  "deserialize_certificate x buf this =
     (Certificate_deserialize x buf, this\<lparr>trace := trace this @ [CertificateDeserialize buf]\<rparr>)"

text \<open>
  The \<^verbatim>\<open>Certificate\<close> case of the switch in \<^verbatim>\<open>handleHandshake\<close>. A fresh
  \<^verbatim>\<open>ArrayBuffer\<close> is filled with zeros. An exception leaves the method; the model
  returns it in place of the socket.
\<close>

definition handleCertificateMessage :: "externals \<Rightarrow> HandshakeReader \<Rightarrow> DtlsSocket \<Rightarrow> error + DtlsSocket" where
  "handleCertificateMessage x message this =
     (if fullLength message = length (buffer message)
      then (case deserialize_certificate x (buffer message) this of
              (certificate, this) \<Rightarrow> Inr (handleCertificate certificate this))
      else
       (let allocated =
              (case certificateFragments (epochState this) of
                 None \<Rightarrow> replicate (fullLength message) 0
               | Some fragments \<Rightarrow> fragments)
        in case Uint8Array_set allocated (buffer message) (fragmentOffset message) of
             Inl e \<Rightarrow> Inl e
           | Inr fragments \<Rightarrow>
              (let this = this\<lparr>epochState := (epochState this)\<lparr>certificateFragments := Some fragments\<rparr>\<rparr>;
                   this = this\<lparr>epochState := (epochState this)
                            \<lparr>certificateFragmentDataRecv :=
                               certificateFragmentDataRecv (epochState this) + length (buffer message)\<rparr>\<rparr>
               in if certificateFragmentDataRecv (epochState this) = fullLength message
                  then (case deserialize_certificate x fragments this of
                          (certificate, this) \<Rightarrow>
                            (let this = handleCertificate certificate this;
                                 this = this\<lparr>epochState := (epochState this)\<lparr>certificateFragments := None\<rparr>\<rparr>
                             in Inr (this\<lparr>epochState := (epochState this)\<lparr>certificateFragmentDataRecv := 0\<rparr>\<rparr>)))
                  else Inr this)))"

definition handleHandshake :: "externals \<Rightarrow> HandshakeReader \<Rightarrow> DtlsSocket \<Rightarrow> error + DtlsSocket" where
  "handleHandshake x message this =
     (let this = console_log (''DTLS Handshake ('' @ HandshakeType_name (handshakeType message) @ '')'') this;
          this = this\<lparr>handshakeSequence := messageSequence message\<rparr>
      in case handshakeType message of
           HelloVerifyRequest_t \<Rightarrow>
             Inr (handleHelloVerifyRequest x (HelloVerifyRequest_deserialize x message) this)
         | ServerHello_t \<Rightarrow> Inr (handleServerHello (ServerHello_deserialize x message) this)
         | Certificate_t \<Rightarrow> handleCertificateMessage x message this
         | ServerKeyExchange_t \<Rightarrow>
             handleServerKeyExchange x (ServerKeyExchange_deserialize x message) this
         | ServerHelloDone_t \<Rightarrow> handleServerHelloDone x this
         | _ \<Rightarrow> Inr this)"

fun handleHandshakes :: "externals \<Rightarrow> HandshakeReader list \<Rightarrow> DtlsSocket \<Rightarrow> error + DtlsSocket" where
  "handleHandshakes x [] this = Inr this"
| "handleHandshakes x (message # messages) this =
     (case handleHandshake x message this of
        Inl e \<Rightarrow> Inl e
      | Inr this \<Rightarrow> handleHandshakes x messages this)"

definition handleMessage :: "externals \<Rightarrow> DtlsRecordReader \<Rightarrow> DtlsSocket \<Rightarrow> error + DtlsSocket" where
  "handleMessage x message this =
     (let this = console_log (''DTLS Record ('' @ ContentType_name (contentType message) @ '')'') this
      in if contentType message = Alert
         then (let alert = alertPacket message
               in if isFatal alert
                  then Inr (emitDisconnect (''DTLS Alert: '' @ alertToString alert) this)
                  else Inr (console_log (alertToString alert) this))
         else if contentType message = Handshake
         then handleHandshakes x (handshakeMessages message) this
         else Inr this)"

text \<open>The records that the transport delivers one after the other.\<close>

fun handleMessages :: "externals \<Rightarrow> DtlsRecordReader list \<Rightarrow> DtlsSocket \<Rightarrow> error + DtlsSocket" where
  "handleMessages x [] this = Inr this"
| "handleMessages x (message # messages) this =
     (case handleMessage x message this of
        Inl e \<Rightarrow> Inl e
      | Inr this \<Rightarrow> handleMessages x messages this)"

subsection \<open>Connecting\<close>

text \<open>
  \<^verbatim>\<open>_connect\<close> is an async function: its synchronous part resets the state and sends
  a ClientHello, then it awaits \<^verbatim>\<open>new Promise(r => {})\<close>, whose resolver is never
  called. The promise it returns is therefore pending for ever. \<^verbatim>\<open>connect\<close>, after
  the transport has connected, creates the promise it awaits, chains it to the promise
  of \<^verbatim>\<open>_connect\<close> and registers its \<^verbatim>\<open>rej\<close> as a disconnect handler. The new
  promise is the last of \<open>promises\<close>.
\<close>

definition underscore_connect :: "externals \<Rightarrow> Random \<Rightarrow> DtlsSocket \<Rightarrow> promise_state \<times> DtlsSocket" where
  "underscore_connect x rnd this =
     (let this = resetConnectionState x rnd this;
          this = sendClientHello x False this
      in (Pending, this))"

definition connect :: "externals \<Rightarrow> Random \<Rightarrow> DtlsSocket \<Rightarrow> DtlsSocket" where
  "connect x rnd this =
     (case underscore_connect x rnd this of
        (inner, this) \<Rightarrow>
          (let i = length (promises this);
               this = this\<lparr>promises := promises this @ [inner]\<rparr>
           in addDisconnectHandler (PromiseRej i) this))"



subsection \<open>Notions used in the statements\<close>

text \<open>The buffers handed to \<^verbatim>\<open>Certificate.deserialize\<close>, and the transport writes.\<close>

fun deserialized :: "effect list \<Rightarrow> bytes list" where
  "deserialized [] = []"
| "deserialized (CertificateDeserialize b # es) = b # deserialized es"
| "deserialized (_ # es) = deserialized es"

fun sends :: "effect list \<Rightarrow> bytes list" where
  "sends [] = []"
| "sends (SocketSend b # es) = b # sends es"
| "sends (_ # es) = sends es"

text \<open>
  The fragments of one certificate message of \<open>len\<close> bytes: Certificate messages
  that declare this total length, none of them empty, no two of them overlapping, and
  together covering every offset below \<open>len\<close>.
\<close>

definition covered :: "HandshakeReader \<Rightarrow> nat set" where
  "covered f = {fragmentOffset f ..< fragmentOffset f + length (buffer f)}"

definition certificate_fragments :: "nat \<Rightarrow> HandshakeReader list \<Rightarrow> bool" where
  "certificate_fragments len fs \<longleftrightarrow>
     fs \<noteq> [] \<and> distinct fs \<and>
     list_all (\<lambda>f. handshakeType f = Certificate_t \<and> fullLength f = len \<and> buffer f \<noteq> []) fs \<and>
     list_all (\<lambda>f. list_all (\<lambda>g. f = g \<or> covered f \<inter> covered g = {}) fs) fs \<and>
     \<Union> (set (map covered fs)) = {0 ..< len}"

definition slice_at :: "HandshakeReader \<Rightarrow> bytes \<Rightarrow> bytes" where
  "slice_at f b = take (length (buffer f)) (drop (fragmentOffset f) b)"

text \<open>
  The reassembly buffer with the fragment \<open>f\<close> copied in at its offset, and the buffer
  a fragment is copied into: the stored one, or a fresh one of \<open>n\<close> zero bytes.
\<close>

definition placed :: "HandshakeReader \<Rightarrow> bytes \<Rightarrow> bytes" where
  "placed f b =
     take (fragmentOffset f) b @ buffer f @ drop (fragmentOffset f + length (buffer f)) b"

definition reassembly_buffer :: "nat \<Rightarrow> DtlsSocket \<Rightarrow> bytes" where
  "reassembly_buffer n this =
     (case certificateFragments (epochState this) of
        None \<Rightarrow> replicate n 0
      | Some fragments \<Rightarrow> fragments)"

text \<open>
  What the handlers maintain: in the two last states the record protection is set, and
  a stored certificate has a public key. So the two unchecked uses
  (\<^verbatim>\<open>recordProtection!\<close> in the final flight and the public key in
  \<^verbatim>\<open>handleServerKeyExchange\<close>) raise no \<^verbatim>\<open>TypeError\<close>.
\<close>

definition handshake_invariant :: "DtlsSocket \<Rightarrow> bool" where
  "handshake_invariant this \<longleftrightarrow>
     (state (epochState this) = ExpectingServerHelloDone
        \<or> state (epochState this) = ExpectingChangeCipherSpec
      \<longrightarrow> recordProtection (epochState this) \<noteq> None) \<and>
     (case serverCertificate (epochState this) of
        None \<Rightarrow> True
      | Some certificate \<Rightarrow> publicKey certificate \<noteq> None)"

text \<open>The fatal alerts among the records received, in their order.\<close>

definition fatal_alerts :: "DtlsRecordReader list \<Rightarrow> AlertPacket list" where
  "fatal_alerts rs =
     map alertPacket (filter (\<lambda>r. contentType r = Alert \<and> isFatal (alertPacket r)) rs)"

subsection \<open>A sample of the external collaborators\<close>

text \<open>
  To evaluate the class on explicit inputs the codecs and primitives need values. The
  sample below gives each of them a small, readable stand-in: a server key exchange is
  curve type, two bytes of curve, the key's length, a key of two bytes, hash and
  signature algorithm and the signature; a signature is valid when it is the key
  followed by the digest, and cannot be decoded when it has another length; the digest
  is the message itself; a certificate's key is the certificate's bytes.
\<close>

definition sample_externals :: externals where
  "sample_externals =
     \<lparr>Random_NULL = [0, 0],
      HelloVerifyRequest_deserialize = (\<lambda>m. \<lparr>hvrCookie = buffer m\<rparr>),
      ServerHello_deserialize =
        (\<lambda>m. \<lparr>shCipherSuite =
                 (if buffer m = [0xC0, 0x2F] then TLS_ECDHE_RSA_WITH_AES_128_GCM_SHA256
                  else if buffer m = [0, 0] then TLS_NULL_WITH_NULL_NULL
                  else OtherCipherSuite 1)\<rparr>),
      Certificate_deserialize = (\<lambda>b. \<lparr>publicKey = (if b = [] then None else Some b)\<rparr>),
      ServerKeyExchange_deserialize =
        (\<lambda>m. case buffer m of
                ct # c1 # c2 # l # k1 # k2 # h # sa # sg \<Rightarrow>
                  \<lparr>curveType = unat ct, selectedCurve = 256 * unat c1 + unat c2,
                   hashAlgorithm = unat h, signatureAlgorithm = unat sa,
                   skeKey = [k1, k2], skeSignature = sg\<rparr>
              | _ \<Rightarrow>
                  \<lparr>curveType = 0, selectedCurve = 0, hashAlgorithm = 0, signatureAlgorithm = 0,
                   skeKey = [], skeSignature = []\<rparr>),
      ServerKeyExchange_serialize =
        (\<lambda>k. [of_nat (curveType k), of_nat (selectedCurve k div 256), of_nat (selectedCurve k),
               of_nat (length (skeKey k))] @ skeKey k
              @ [of_nat (hashAlgorithm k), of_nat (signatureAlgorithm k)] @ skeSignature k),
      ClientHello_serialize = (\<lambda>h. chRandom h @ chCookie h),
      ClientKeyExchange_serialize = ckePublicKey,
      EllipticCurveExtensionData_serialize = map of_nat,
      Handshake_serialize =
        (\<lambda>h. [of_nat (outMessageSequence h), of_nat (outFragmentLength h)] @ outBuffer h),
      DtlsRecord_serialize =
        (\<lambda>r. [of_nat (recEpoch r), of_nat (recSequenceNumber r)] @ recPayload r),
      sha256_digest = (\<lambda>b. b),
      rsa_verify =
        (\<lambda>k d sg. if length sg \<noteq> length k + length d then None else Some (sg = k @ d)),
      x25519_scalarMult = (\<lambda>n p. p @ n),
      x25519_scalarMultBase = (\<lambda>n. n),
      expandSecret = (\<lambda>secret label seed. secret @ seed),
      encryptClientPlaintext = (\<lambda>rp r. r\<lparr>recPayload := rpMasterSecret rp @ recPayload r\<rparr>)\<rparr>"

definition sample_message :: "HandshakeType \<Rightarrow> nat \<Rightarrow> bytes \<Rightarrow> HandshakeReader" where
  "sample_message t sq body =
     \<lparr>handshakeType = t, fullLength = length body, messageSequence = sq,
      fragmentOffset = 0, buffer = body\<rparr>"

definition sample_record :: "HandshakeReader list \<Rightarrow> DtlsRecordReader" where
  "sample_record ms =
     \<lparr>contentType = Handshake, alertPacket = \<lparr>isFatal = False, alertToString = []\<rparr>,
      handshakeMessages = ms\<rparr>"

text \<open>
  The end-to-end scenario of the spec up to the valid ServerKeyExchange: a fresh socket
  connects and receives HelloVerifyRequest, ServerHello, Certificate and
  ServerKeyExchange. The client random is the two bytes 7, 7.
\<close>

definition sample_connected :: DtlsSocket where
  "sample_connected = connect sample_externals [7, 7] (new_DtlsSocket sample_externals [9, 9])"

definition sample_server_flight :: "DtlsRecordReader list" where
  "sample_server_flight =
     [sample_record [sample_message HelloVerifyRequest_t 0 [0xAB]],
      sample_record
        [sample_message ServerHello_t 1 [0xC0, 0x2F],
         sample_message Certificate_t 2 [5, 6],
         sample_message ServerKeyExchange_t 3
           [3, 0, 0x1D, 2, 8, 9, 4, 1, 5, 6, 3, 0, 0x1D, 2, 8, 9]]]"

definition sample_ServerHelloDone :: DtlsRecordReader where
  "sample_ServerHelloDone = sample_record [sample_message ServerHelloDone_t 4 []]"


text \<open>
  The socket of the scenario after HelloVerifyRequest, ServerHello and Certificate,
  before the ServerKeyExchange (\<open>sample_certified_run\<close> below).
\<close>

definition sample_certified :: DtlsSocket where
  "sample_certified =
    \<lparr>disconnectHandlers = [PromiseRej 0], protocolVersion = Obfuscated,
     epoch = 0, sequenceNumber = 3,
     epochState =
       \<lparr>epochState_epoch = 1, state = ExpectingServerKeyExchange,
        clientRandom = [7, 7], serverRandom = [0, 0],
        selectedCipherSuite = TLS_ECDHE_RSA_WITH_AES_128_GCM_SHA256,
        cookie = [0xAB], handshake = Some New_X25519EcdheRsaSha256,
        serverCertificate = Some \<lparr>publicKey = Some [5, 6]\<rparr>,
        recordProtection = None, masterSecret = [],
        serverVerification = [], certificateFragments = None,
        certificateFragmentDataRecv = 0, certificatePayload = []\<rparr>,
     handshakeSequence = 2,
     messagesBuffer = [[0, 1, 0, 2, 7, 7], [0, 2, 0, 3, 7, 7, 0xAB]],
     promises = [Pending],
     trace =
       [SocketSend [0, 1, 0, 2, 7, 7],
        ConsoleLog ''DTLS Record (Handshake)'',
        ConsoleLog ''DTLS Handshake (HelloVerifyRequest)'',
        SocketSend [0, 2, 0, 3, 7, 7, 0xAB],
        ConsoleLog ''DTLS Record (Handshake)'',
        ConsoleLog ''DTLS Handshake (ServerHello)'',
        ConsoleLog ''DTLS Handshake (Certificate)'',
        CertificateDeserialize [5, 6]]\<rparr>"

text \<open>
  The socket of the scenario after the server's flight, written out; that the scenario
  leads to it is proved below (\<open>sample_server_flight_run\<close>).
\<close>

definition sample_keyed :: DtlsSocket where
  "sample_keyed =
    \<lparr>disconnectHandlers = [PromiseRej 0], protocolVersion = Obfuscated,
     epoch = 0, sequenceNumber = 3,
     epochState =
       \<lparr>epochState_epoch = 1, state = ExpectingServerHelloDone,
        clientRandom = [7, 7], serverRandom = [0, 0],
        selectedCipherSuite = TLS_ECDHE_RSA_WITH_AES_128_GCM_SHA256,
        cookie = [0xAB], handshake = Some New_X25519EcdheRsaSha256,
        serverCertificate = Some \<lparr>publicKey = Some [5, 6]\<rparr>,
        recordProtection =
          Some \<lparr>rpMasterSecret = [8, 9, 7, 7, 7, 7, 0, 0],
                rpServerRandom = [0, 0], rpClientRandom = [7, 7]\<rparr>,
        masterSecret = [8, 9, 7, 7, 7, 7, 0, 0],
        serverVerification = [], certificateFragments = None,
        certificateFragmentDataRecv = 0, certificatePayload = []\<rparr>,
     handshakeSequence = 3,
     messagesBuffer = [[0, 1, 0, 2, 7, 7], [0, 2, 0, 3, 7, 7, 0xAB]],
     promises = [Pending],
     trace =
       [SocketSend [0, 1, 0, 2, 7, 7],
        ConsoleLog ''DTLS Record (Handshake)'',
        ConsoleLog ''DTLS Handshake (HelloVerifyRequest)'',
        SocketSend [0, 2, 0, 3, 7, 7, 0xAB],
        ConsoleLog ''DTLS Record (Handshake)'',
        ConsoleLog ''DTLS Handshake (ServerHello)'',
        ConsoleLog ''DTLS Handshake (Certificate)'',
        CertificateDeserialize [5, 6],
        ConsoleLog ''DTLS Handshake (ServerKeyExchange)'']\<rparr>"

text \<open>The socket of the scenario after the final client flight.\<close>

definition sample_finished :: DtlsSocket where
  "sample_finished =
     sample_keyed
       \<lparr>epoch := 1, sequenceNumber := 2,
        epochState := (epochState sample_keyed)\<lparr>state := ExpectingChangeCipherSpec\<rparr>,
        handshakeSequence := 6,
        trace := trace sample_keyed @
          [ConsoleLog ''DTLS Record (Handshake)'',
           ConsoleLog ''DTLS Handshake (ServerHelloDone)'',
           SocketSend [0, 3, 4, 2, 7, 7, 0, 4, 1, 1, 1, 8, 9, 7, 7, 7, 7, 0, 0, 5, 0, 1]]\<rparr>"


section \<open>Properties of the acknowledgement engine\<close>

lemmas ack_defs = emit_def resolve_def reject_def incrementSendCount_def cleanup_def
  setResolved_def setDropped_def attemptSend_def interval_callback_def
  new_PacketAcknowledgementPromise_def then_p_def catch_p_def timer_expires_def

lemma ack_run_snoc: "ack_run (evs @ [e]) s = ack_step (ack_run evs s) e"
  by (simp add: ack_run_def)

lemma ack_run_append: "ack_run (evs @ evs') s = ack_run evs' (ack_run evs s)"
  by (simp add: ack_run_def)

lemma ack_run_Cons: "ack_run (e # evs) s = ack_run evs (ack_step s e)"
  by (simp add: ack_run_def)

lemma distinct_set_add: "distinct xs \<Longrightarrow> distinct (set_add x xs)"
  by (simp add: set_add_def)

lemma ack_step_distinct:
  "distinct (resolveListeners s) \<and> distinct (rejectListeners s) \<Longrightarrow>
   distinct (resolveListeners (ack_step s e)) \<and> distinct (rejectListeners (ack_step s e))"
  by (cases e) (auto simp: ack_defs Let_def distinct_set_add split: option.splits)

lemma ack_run_distinct:
  "distinct (resolveListeners s) \<and> distinct (rejectListeners s) \<Longrightarrow>
   distinct (resolveListeners (ack_run evs s)) \<and> distinct (rejectListeners (ack_run evs s))"
proof (induction evs arbitrary: s)
  case Nil
  then show ?case by (simp add: ack_run_def)
next
  case (Cons e evs)
  from ack_step_distinct [OF Cons.prems] show ?case
    unfolding ack_run_Cons by (rule Cons.IH)
qed

lemma new_distinct:
  "distinct (resolveListeners (ack_run evs (new_PacketAcknowledgementPromise p t))) \<and>
   distinct (rejectListeners (ack_run evs (new_PacketAcknowledgementPromise p t)))"
  by (rule ack_run_distinct) (simp add: ack_defs)

lemma before_drop:
  "SetResolved \<notin> set evs \<Longrightarrow> count_list evs TimerExpires \<le> 9 \<Longrightarrow>
   sendCount (ack_run evs (new_PacketAcknowledgementPromise p t)) = Suc (count_list evs TimerExpires) \<and>
   clock (ack_run evs (new_PacketAcknowledgementPromise p t)) = t + 2000 * count_list evs TimerExpires \<and>
   timeout (ack_run evs (new_PacketAcknowledgementPromise p t)) = \<lparr>period = 2000, armed = True\<rparr> \<and>
   packet (ack_run evs (new_PacketAcknowledgementPromise p t)) = p \<and>
   effects (ack_run evs (new_PacketAcknowledgementPromise p t)) =
     map (\<lambda>i. ClientWrite (t + 2000 * i) p) [0 ..< Suc (count_list evs TimerExpires)]"
proof (induction evs rule: rev_induct)
  case Nil
  show ?case by (simp add: ack_run_def ack_defs)
next
  case (snoc e evs)
  then show ?case
    by (cases e) (auto simp: ack_run_snoc ack_defs Let_def split: option.splits)
qed

lemma after_disarm_writes:
  "\<not> armed (timeout s) \<Longrightarrow>
   writes (ack_run evs s) = writes s \<and> \<not> armed (timeout (ack_run evs s))"
proof (induction evs arbitrary: s)
  case Nil
  then show ?case by (simp add: ack_run_def)
next
  case (Cons e evs)
  have "writes (ack_step s e) = writes s \<and> \<not> armed (timeout (ack_step s e))"
    using Cons.prems by (cases e) (auto simp: ack_defs writes_def Let_def split: option.splits)
  with Cons.IH [of "ack_step s e"] show ?case by (simp add: ack_run_Cons)
qed

lemma after_disarm_quiet:
  "\<not> armed (timeout s) \<Longrightarrow> SetResolved \<notin> set evs \<Longrightarrow> effects (ack_run evs s) = effects s"
proof (induction evs arbitrary: s)
  case Nil
  then show ?case by (simp add: ack_run_def)
next
  case (Cons e evs)
  have "effects (ack_step s e) = effects s \<and> \<not> armed (timeout (ack_step s e))"
    using Cons.prems by (cases e) (auto simp: ack_defs Let_def split: option.splits)
  with Cons.IH [of "ack_step s e"] Cons.prems show ?case by (simp add: ack_run_Cons)
qed

lemma drop_step:
  assumes "sendCount s = 10" and "armed (timeout s)"
  shows "effects (timer_expires s) =
           effects s @ ClearInterval # map (\<lambda>l. RejectListenerCalled l ''Packet was not acked'') (rejectListeners s)
         \<and> \<not> armed (timeout (timer_expires s))"
  using assms by (simp add: ack_defs)

lemma setResolved_step:
  "effects (setResolved s) = effects s @ ClearInterval # map ResolveListenerCalled (resolveListeners s)
   \<and> \<not> armed (timeout (setResolved s)) \<and> writes (setResolved s) = writes s"
  by (simp add: ack_defs writes_def)

lemma after_disarm_no_failure:
  "\<not> armed (timeout s) \<Longrightarrow>
   \<not> armed (timeout (ack_run evs s)) \<and>
   (\<forall>l r. RejectListenerCalled l r \<in> set (effects (ack_run evs s)) \<longrightarrow>
      RejectListenerCalled l r \<in> set (effects s))"
proof (induction evs arbitrary: s)
  case Nil
  then show ?case by (simp add: ack_run_def)
next
  case (Cons e evs)
  have step: "\<not> armed (timeout (ack_step s e)) \<and>
     (\<forall>l r. RejectListenerCalled l r \<in> set (effects (ack_step s e)) \<longrightarrow>
        RejectListenerCalled l r \<in> set (effects s))"
    using Cons.prems by (cases e) (auto simp: ack_defs Let_def split: option.splits)
  with Cons.IH [of "ack_step s e"] show ?case by (simp add: ack_run_Cons)
qed

text \<open>
  Claim C7, as the class has it. The constructor performs attempt 1 at once. As long
  as nobody calls \<^verbatim>\<open>setResolved\<close>, after \<open>k \<le> 9\<close> expiries of the timer exactly the
  attempts \<open>1\<close> to \<open>k + 1\<close> have been made, attempt \<open>i + 1\<close> at \<open>2000 * i\<close> time
  units after the construction, and the timer is still armed. The tenth expiry drops the
  packet: it clears the timer and calls every failure continuation registered by then
  once, with the reason \<^verbatim>\<open>Packet was not acked\<close>; the timer is then unarmed, no
  attempt follows whatever happens later, and nothing at all happens as long as
  \<^verbatim>\<open>setResolved\<close> is not called. A call of \<^verbatim>\<open>setResolved\<close> before the drop clears the
  timer and calls every success continuation registered by then once; from then on the
  timer is unarmed, no transmission attempt and no failure continuation follows,
  whatever happens later, and nothing at all happens as long as \<^verbatim>\<open>setResolved\<close> is
  not called again. The sets of continuations hold no duplicates.
\<close>

theorem ack_engine_attempts_and_completion:
  assumes "SetResolved \<notin> set pre" and "count_list pre TimerExpires = k" and "k \<le> 9"
  shows "let s0 = new_PacketAcknowledgementPromise p t; s = ack_run pre s0 in
     effects s0 = [ClientWrite t p] \<and> sendCount s0 = 1 \<and>
     effects s = map (\<lambda>i. ClientWrite (t + 2000 * i) p) [0 ..< Suc k] \<and>
     sendCount s = Suc k \<and> armed (timeout s) \<and>
     distinct (resolveListeners s) \<and> distinct (rejectListeners s) \<and>
     (k = 9 \<and> SetResolved \<notin> set post \<longrightarrow>
        effects (ack_run (TimerExpires # post) s) =
          effects s @ ClearInterval #
            map (\<lambda>l. RejectListenerCalled l ''Packet was not acked'') (rejectListeners s)) \<and>
     (k = 9 \<longrightarrow>
        \<not> armed (timeout (ack_run (TimerExpires # rest) s)) \<and>
        writes (ack_run (TimerExpires # rest) s) = writes s) \<and>
     effects (ack_run [SetResolved] s) =
       effects s @ ClearInterval # map ResolveListenerCalled (resolveListeners s) \<and>
     writes (ack_run (SetResolved # rest) s) = writes s \<and>
     \<not> armed (timeout (ack_run (SetResolved # rest) s)) \<and>
     (\<forall>l r. RejectListenerCalled l r \<notin> set (effects (ack_run (SetResolved # rest) s))) \<and>
     (SetResolved \<notin> set post \<longrightarrow>
        effects (ack_run (SetResolved # post) s) =
          effects s @ ClearInterval # map ResolveListenerCalled (resolveListeners s))"
proof -
  define s0 where "s0 = new_PacketAcknowledgementPromise p t"
  define s where "s = ack_run pre s0"
  have new: "effects s0 = [ClientWrite t p] \<and> sendCount s0 = 1"
    by (simp add: s0_def ack_defs)
  from before_drop [of pre p t] assms
  have run: "sendCount s = Suc k" "timeout s = \<lparr>period = 2000, armed = True\<rparr>"
    "effects s = map (\<lambda>i. ClientWrite (t + 2000 * i) p) [0 ..< Suc k]"
    unfolding s_def s0_def by simp_all
  have dist: "distinct (resolveListeners s) \<and> distinct (rejectListeners s)"
    unfolding s_def s0_def by (rule new_distinct)
  have dropped: "effects (ack_run (TimerExpires # post) s) =
          effects s @ ClearInterval #
            map (\<lambda>l. RejectListenerCalled l ''Packet was not acked'') (rejectListeners s)"
    if "k = 9" and "SetResolved \<notin> set post"
  proof -
    from that run have "sendCount s = 10" and "armed (timeout s)" by simp_all
    from drop_step [OF this] after_disarm_quiet [of "timer_expires s" post] that
    show ?thesis by (simp add: ack_run_Cons)
  qed
  have after_drop: "\<not> armed (timeout (ack_run (TimerExpires # rest) s)) \<and>
        writes (ack_run (TimerExpires # rest) s) = writes s"
    if "k = 9"
  proof -
    from that run have c: "sendCount s = 10" and a: "armed (timeout s)" by simp_all
    from drop_step [OF c a] have d: "\<not> armed (timeout (timer_expires s))"
      and w: "writes (timer_expires s) = writes s"
      by (simp_all add: writes_def)
    from after_disarm_writes [OF d, of rest] w show ?thesis
      by (simp add: ack_run_Cons)
  qed
  have resolved: "effects (ack_run [SetResolved] s) =
       effects s @ ClearInterval # map ResolveListenerCalled (resolveListeners s)"
    using setResolved_step [of s] by (simp add: ack_run_def)
  from setResolved_step [of s] have off: "\<not> armed (timeout (setResolved s))" by simp
  have quiet: "writes (ack_run (SetResolved # rest) s) = writes s \<and>
      \<not> armed (timeout (ack_run (SetResolved # rest) s))"
    using setResolved_step [of s] after_disarm_writes [OF off, of rest]
    by (simp add: ack_run_Cons)
  have none_before: "RejectListenerCalled l r \<notin> set (effects (setResolved s))" for l r
    using setResolved_step [of s] run(3) by auto
  have no_failure: "\<forall>l r. RejectListenerCalled l r \<notin> set (effects (ack_run (SetResolved # rest) s))"
    using after_disarm_no_failure [OF off, of rest] none_before
    by (auto simp: ack_run_Cons)
  have once: "effects (ack_run (SetResolved # post) s) =
          effects s @ ClearInterval # map ResolveListenerCalled (resolveListeners s)"
    if "SetResolved \<notin> set post"
    using after_disarm_quiet [OF off that] setResolved_step [of s]
    by (simp add: ack_run_Cons)
  from new run dist dropped after_drop resolved quiet no_failure once show ?thesis
    unfolding Let_def s_def [symmetric] s0_def [symmetric] by simp
qed

text \<open>
  Two instances of C7 after two registrations and nine expiries, that is after attempt
  10. In the first the timer expires again: the packet is dropped, with ten attempts,
  one clearing of the timer and one call of the failure continuation registered before
  the drop, and a later registration and expiry add nothing. In the second the packet
  is resolved in place of the tenth expiry: the timer is cleared, the success
  continuation is called, and the two expiries that would have dropped it do nothing.
\<close>

theorem ack_engine_attempts_and_completion_witness:
  "SetResolved \<notin> set [Catch 3, TimerExpires, TimerExpires, TimerExpires, TimerExpires, Then 4 None,
       TimerExpires, TimerExpires, TimerExpires, TimerExpires, TimerExpires] \<and>
   count_list [Catch 3, TimerExpires, TimerExpires, TimerExpires, TimerExpires, Then 4 None,
       TimerExpires, TimerExpires, TimerExpires, TimerExpires, TimerExpires] TimerExpires = 9 \<and>
   effects (ack_run ([Catch 3, TimerExpires, TimerExpires, TimerExpires, TimerExpires, Then 4 None,
       TimerExpires, TimerExpires, TimerExpires, TimerExpires, TimerExpires] @ [TimerExpires, Catch 5, TimerExpires])
      (new_PacketAcknowledgementPromise (0::nat) 5)) =
     map (\<lambda>i. ClientWrite (5 + 2000 * i) 0) [0 ..< Suc 9] @
     [ClearInterval, RejectListenerCalled 3 ''Packet was not acked''] \<and>
   effects (ack_run ([Catch 3, TimerExpires, TimerExpires, TimerExpires, TimerExpires, Then 4 None,
       TimerExpires, TimerExpires, TimerExpires, TimerExpires, TimerExpires] @ [SetResolved, TimerExpires, TimerExpires])
      (new_PacketAcknowledgementPromise (0::nat) 5)) =
     map (\<lambda>i. ClientWrite (5 + 2000 * i) 0) [0 ..< Suc 9] @
     [ClearInterval, ResolveListenerCalled 4] \<and>
   \<not> armed (timeout (ack_run ([Catch 3, TimerExpires, TimerExpires, TimerExpires, TimerExpires, Then 4 None,
       TimerExpires, TimerExpires, TimerExpires, TimerExpires, TimerExpires] @ [SetResolved, TimerExpires, TimerExpires])
      (new_PacketAcknowledgementPromise (0::nat) 5)))"
proof -
  let ?pre = "[Catch 3, TimerExpires, TimerExpires, TimerExpires, TimerExpires, Then 4 None,
       TimerExpires, TimerExpires, TimerExpires, TimerExpires, TimerExpires]"
  let ?s = "ack_run ?pre (new_PacketAcknowledgementPromise (0::nat) 5)"
  have h1: "SetResolved \<notin> set ?pre" by simp
  have h2: "count_list ?pre TimerExpires = 9" by simp
  have h3: "(9::nat) \<le> 9" by simp
  have h4: "(9::nat) = 9 \<and> SetResolved \<notin> set [Catch 5, TimerExpires]" by simp
  have h5: "SetResolved \<notin> set [TimerExpires, TimerExpires]" by simp
  have l: "rejectListeners ?s = [3]"
    by (simp add: ack_run_def ack_defs set_add_def)
  have l': "resolveListeners ?s = [4]"
    by (simp add: ack_run_def ack_defs set_add_def)
  note all = ack_engine_attempts_and_completion [OF h1 h2 h3, of 0 5 "[Catch 5, TimerExpires]"
      "[TimerExpires, TimerExpires]", unfolded Let_def]
  note all' = ack_engine_attempts_and_completion [OF h1 h2 h3, of 0 5 "[TimerExpires, TimerExpires]"
      "[TimerExpires, TimerExpires]", unfolded Let_def]
  from all have e: "effects ?s = map (\<lambda>i. ClientWrite (5 + 2000 * i) 0) [0 ..< Suc 9]"
    by (elim conjE)
  from all have "(9::nat) = 9 \<and> SetResolved \<notin> set [Catch 5, TimerExpires] \<longrightarrow>
        effects (ack_run (TimerExpires # [Catch 5, TimerExpires]) ?s) =
          effects ?s @ ClearInterval #
            map (\<lambda>l. RejectListenerCalled l ''Packet was not acked'') (rejectListeners ?s)"
    by (elim conjE)
  from this h4 have d: "effects (ack_run (TimerExpires # [Catch 5, TimerExpires]) ?s) =
          effects ?s @ ClearInterval #
            map (\<lambda>l. RejectListenerCalled l ''Packet was not acked'') (rejectListeners ?s)"
    by (rule mp)
  from all' have "SetResolved \<notin> set [TimerExpires, TimerExpires] \<longrightarrow>
        effects (ack_run (SetResolved # [TimerExpires, TimerExpires]) ?s) =
          effects ?s @ ClearInterval # map ResolveListenerCalled (resolveListeners ?s)"
    by (elim conjE)
  from this h5 have r: "effects (ack_run (SetResolved # [TimerExpires, TimerExpires]) ?s) =
          effects ?s @ ClearInterval # map ResolveListenerCalled (resolveListeners ?s)"
    by (rule mp)
  from all' have u: "\<not> armed (timeout (ack_run (SetResolved # [TimerExpires, TimerExpires]) ?s))"
    by (elim conjE)
  have split1: "ack_run (?pre @ [TimerExpires, Catch 5, TimerExpires]) (new_PacketAcknowledgementPromise (0::nat) 5)
        = ack_run (TimerExpires # [Catch 5, TimerExpires]) ?s"
    by (rule ack_run_append)
  have split2: "ack_run (?pre @ [SetResolved, TimerExpires, TimerExpires]) (new_PacketAcknowledgementPromise (0::nat) 5)
        = ack_run (SetResolved # [TimerExpires, TimerExpires]) ?s"
    by (rule ack_run_append)
  have c1: "effects (ack_run (?pre @ [TimerExpires, Catch 5, TimerExpires]) (new_PacketAcknowledgementPromise (0::nat) 5))
       = map (\<lambda>i. ClientWrite (5 + 2000 * i) 0) [0 ..< Suc 9] @
     [ClearInterval, RejectListenerCalled 3 ''Packet was not acked'']"
    unfolding split1 using d e l by simp
  have c2: "effects (ack_run (?pre @ [SetResolved, TimerExpires, TimerExpires]) (new_PacketAcknowledgementPromise (0::nat) 5))
       = map (\<lambda>i. ClientWrite (5 + 2000 * i) 0) [0 ..< Suc 9] @
     [ClearInterval, ResolveListenerCalled 4]"
    unfolding split2 using r e l' by simp
  have c3: "\<not> armed (timeout (ack_run (?pre @ [SetResolved, TimerExpires, TimerExpires])
      (new_PacketAcknowledgementPromise (0::nat) 5)))"
    unfolding split2 using u .
  from h1 h2 c1 c2 c3 show ?thesis by blast
qed

text \<open>
  The class keeps no record of having completed. A second \<^verbatim>\<open>setResolved\<close> clears
  the timer and calls the success continuations again; a \<^verbatim>\<open>setResolved\<close> after the
  drop calls the success continuations although the failure continuations have run.
\<close>

theorem ack_engine_completes_again:
  "effects (ack_run [Then 1 None, SetResolved, SetResolved] (new_PacketAcknowledgementPromise (0::nat) 0)) =
     [ClientWrite 0 0, ClearInterval, ResolveListenerCalled 1, ClearInterval, ResolveListenerCalled 1] \<and>
   effects (ack_run [Then 1 (Some 2), TimerExpires, TimerExpires, TimerExpires, TimerExpires, TimerExpires,
       TimerExpires, TimerExpires, TimerExpires, TimerExpires, TimerExpires, SetResolved]
      (new_PacketAcknowledgementPromise (0::nat) 0)) =
     map (\<lambda>i. ClientWrite (2000 * i) 0) [0 ..< 10] @
     [ClearInterval, RejectListenerCalled 2 ''Packet was not acked'', ClearInterval, ResolveListenerCalled 1]"
  by (simp add: ack_run_def ack_defs set_add_def upt_rec)

section \<open>Properties of the handshake\<close>

subsection \<open>Cookie exchange, ServerHello and the sequence numbers\<close>

lemmas send_defs = console_log_def socket_send_def sendDtlsMessage_def sendHandshakeMessage_def
  sendClientHello_def handshakeReader_of_def HandshakeReader_fromHandshake_def
  DtlsRecordReader_fromRecord_def new_ClientHello_def incrementEpoch_def

lemmas flight_defs = sendClientKeyExchangeFlight_def flight_handshakeReader_def
  flight_handshakeReader2_def new_ClientKeyExchange_def

lemma sends_append: "sends (es @ es') = sends es @ sends es'"
  by (induction es rule: sends.induct) simp_all

lemma deserialized_append: "deserialized (es @ es') = deserialized es @ deserialized es'"
  by (induction es rule: deserialized.induct) simp_all

text \<open>
  Claim C6. A HelloVerifyRequest handled in state \<open>ExpectingServerHello\<close> leaves the
  state as it is. When its cookie equals the stored one, the message is logged as a
  duplicate and nothing is written to the transport. Otherwise the cookie is stored and
  exactly one record is written: a handshake record at the current epoch and record
  sequence number, holding one ClientHello that carries the new cookie.
\<close>

theorem helloVerifyRequest_cookie:
  assumes "handshakeType m = HelloVerifyRequest_t"
    and "state (epochState this) = ExpectingServerHello"
  shows "\<exists>this'. handleHandshake x m this = Inr this' \<and>
     state (epochState this') = ExpectingServerHello \<and>
     (if hvrCookie (HelloVerifyRequest_deserialize x m) = cookie (epochState this)
      then cookie (epochState this') = cookie (epochState this) \<and>
           trace this' = trace this @
             [ConsoleLog ''DTLS Handshake (HelloVerifyRequest)'',
              ConsoleLog ''Dropping duplicate HelloVerifyRequest handshake message'']
      else cookie (epochState this') = hvrCookie (HelloVerifyRequest_deserialize x m) \<and>
           trace this' = trace this @
             [ConsoleLog ''DTLS Handshake (HelloVerifyRequest)'',
              SocketSend (DtlsRecord_serialize x
                \<lparr>recContentType = Handshake, recProtocolVersion = protocolVersion this,
                 recEpoch = epoch this, recSequenceNumber = sequenceNumber this,
                 recPayload = Handshake_serialize x
                   (handshakeReader_of x (messageSequence m)
                      (ClientHelloMessage
                         \<lparr>chProtocolVersion = protocolVersion this,
                          chRandom = clientRandom (epochState this),
                          chSessionInfo = 1,
                          chCookie = hvrCookie (HelloVerifyRequest_deserialize x m),
                          chCipherSuites = [TLS_ECDHE_RSA_WITH_AES_128_GCM_SHA256],
                          chCompressionMethods = [0],
                          chExtensions =
                            [\<lparr>extensionType = 10,
                              extensionData = EllipticCurveExtensionData_serialize x [0x001d]\<rparr>]\<rparr>))\<rparr>)])"
  using assms
  by (auto simp: handleHandshake_def handleHelloVerifyRequest_def send_defs Let_def)

lemmas handler_defs = handleHandshake_def handleHelloVerifyRequest_def handleServerHello_def
  handleCertificate_def handleCertificateMessage_def deserialize_certificate_def
  handleServerKeyExchange_def handleServerHelloDone_def handleMessage_def Uint8Array_set_def
  TextEncoder_encode_def

lemmas sample_defs = sample_externals_def sample_message_def sample_record_def
  sample_server_flight_def sample_ServerHelloDone_def

lemma sample_connected_eq:
  "sample_connected =
    \<lparr>disconnectHandlers = [PromiseRej 0], protocolVersion = Obfuscated,
     epoch = 0, sequenceNumber = 2,
     epochState =
       \<lparr>epochState_epoch = 1, state = ExpectingServerHello,
        clientRandom = [7, 7], serverRandom = [0, 0],
        selectedCipherSuite = TLS_NULL_WITH_NULL_NULL, cookie = [],
        handshake = None, serverCertificate = None,
        recordProtection = None, masterSecret = [],
        serverVerification = [], certificateFragments = None,
        certificateFragmentDataRecv = 0, certificatePayload = []\<rparr>,
     handshakeSequence = 1, messagesBuffer = [[0, 1, 0, 2, 7, 7]],
     promises = [Pending], trace = [SocketSend [0, 1, 0, 2, 7, 7]]\<rparr>"
  by (simp add: sample_connected_def connect_def underscore_connect_def new_DtlsSocket_def
      resetConnectionState_def addDisconnectHandler_def set_add_def send_defs sample_defs Let_def)


lemma sample_server_flight_run:
  "handleMessages sample_externals sample_server_flight sample_connected = Inr sample_keyed"
  by (simp add: sample_connected_eq sample_keyed_def handler_defs send_defs sample_defs Let_def)

lemma sample_ServerHelloDone_run:
  "handleMessage sample_externals sample_ServerHelloDone sample_keyed = Inr sample_finished"
  by (simp add: sample_finished_def sample_keyed_def handler_defs send_defs flight_defs sample_defs Let_def)

text \<open>
  An instance of C6: the socket of the scenario receives the cookie \<open>0xAB\<close> and sends a
  second ClientHello that ends with it.
\<close>

theorem helloVerifyRequest_cookie_witness:
  "handshakeType (sample_message HelloVerifyRequest_t 0 [0xAB]) = HelloVerifyRequest_t \<and>
   state (epochState sample_connected) = ExpectingServerHello \<and>
   (\<exists>this'. handleHandshake sample_externals (sample_message HelloVerifyRequest_t 0 [0xAB])
               sample_connected = Inr this' \<and>
      state (epochState this') = ExpectingServerHello \<and>
      cookie (epochState this') = [0xAB] \<and>
      sends (trace this') = [[0, 1, 0, 2, 7, 7], [0, 2, 0, 3, 7, 7, 0xAB]])"
proof -
  let ?m = "sample_message HelloVerifyRequest_t 0 [0xAB]"
  have h1: "handshakeType ?m = HelloVerifyRequest_t"
    by (simp add: sample_message_def)
  have h2: "state (epochState sample_connected) = ExpectingServerHello"
    by (simp add: sample_connected_eq)
  from helloVerifyRequest_cookie [OF h1 h2, of sample_externals]
  obtain this' where r: "handleHandshake sample_externals ?m sample_connected = Inr this'"
    and st: "state (epochState this') = ExpectingServerHello"
    and c: "if hvrCookie (HelloVerifyRequest_deserialize sample_externals ?m) = cookie (epochState sample_connected)
      then cookie (epochState this') = cookie (epochState sample_connected) \<and>
           trace this' = trace sample_connected @
             [ConsoleLog ''DTLS Handshake (HelloVerifyRequest)'',
              ConsoleLog ''Dropping duplicate HelloVerifyRequest handshake message'']
      else cookie (epochState this') = hvrCookie (HelloVerifyRequest_deserialize sample_externals ?m) \<and>
           trace this' = trace sample_connected @
             [ConsoleLog ''DTLS Handshake (HelloVerifyRequest)'',
              SocketSend (DtlsRecord_serialize sample_externals
                \<lparr>recContentType = Handshake, recProtocolVersion = protocolVersion sample_connected,
                 recEpoch = epoch sample_connected, recSequenceNumber = sequenceNumber sample_connected,
                 recPayload = Handshake_serialize sample_externals
                   (handshakeReader_of sample_externals (messageSequence ?m)
                      (ClientHelloMessage
                         \<lparr>chProtocolVersion = protocolVersion sample_connected,
                          chRandom = clientRandom (epochState sample_connected),
                          chSessionInfo = 1,
                          chCookie = hvrCookie (HelloVerifyRequest_deserialize sample_externals ?m),
                          chCipherSuites = [TLS_ECDHE_RSA_WITH_AES_128_GCM_SHA256],
                          chCompressionMethods = [0],
                          chExtensions =
                            [\<lparr>extensionType = 10,
                              extensionData = EllipticCurveExtensionData_serialize sample_externals [0x001d]\<rparr>]\<rparr>))\<rparr>)]"
    by blast
  from c have "cookie (epochState this') = [0xAB]"
    and "sends (trace this') = [[0, 1, 0, 2, 7, 7], [0, 2, 0, 3, 7, 7, 0xAB]]"
    by (simp_all add: sample_connected_eq sample_defs handshakeReader_of_def
        HandshakeReader_fromHandshake_def)
  with h1 h2 r st show ?thesis by blast
qed

text \<open>
  Claim C2, first half, and what the class does in place of the second half. A
  ServerHello handled in state \<open>ExpectingServerHello\<close> always stores the suite it
  carries and moves to \<open>ExpectingCertificate\<close>. With the supported suite the
  key-agreement helper is created; with any other suite the class logs that it drops the
  message, and goes on as if it had not: the \<^verbatim>\<open>else\<close> branch has no \<^verbatim>\<open>return\<close>.
\<close>

theorem serverHello_any_suite_advances:
  assumes "handshakeType m = ServerHello_t"
    and "state (epochState this) = ExpectingServerHello"
  shows "\<exists>this'. handleHandshake x m this = Inr this' \<and>
     state (epochState this') = ExpectingCertificate \<and>
     selectedCipherSuite (epochState this') = shCipherSuite (ServerHello_deserialize x m) \<and>
     (if shCipherSuite (ServerHello_deserialize x m) = TLS_ECDHE_RSA_WITH_AES_128_GCM_SHA256
      then handshake (epochState this') = Some New_X25519EcdheRsaSha256 \<and>
           trace this' = trace this @ [ConsoleLog ''DTLS Handshake (ServerHello)'']
      else handshake (epochState this') = handshake (epochState this) \<and>
           trace this' = trace this @
             [ConsoleLog ''DTLS Handshake (ServerHello)'',
              ConsoleLog ''Dropping malformed ServerHello message. Unsupported CiperSuite''])"
  using assms
  by (auto simp: handleHandshake_def handleServerHello_def console_log_def Let_def)

text \<open>
  The failing input of C2: a ServerHello with the suite \<open>TLS_NULL_WITH_NULL_NULL\<close>,
  received by the socket of the scenario right after its ClientHello.
\<close>

theorem serverHello_any_suite_advances_witness:
  "handshakeType (sample_message ServerHello_t 1 [0, 0]) = ServerHello_t \<and>
   state (epochState sample_connected) = ExpectingServerHello \<and>
   shCipherSuite (ServerHello_deserialize sample_externals (sample_message ServerHello_t 1 [0, 0]))
     = TLS_NULL_WITH_NULL_NULL \<and>
   (\<exists>this'. handleHandshake sample_externals (sample_message ServerHello_t 1 [0, 0])
               sample_connected = Inr this' \<and>
      state (epochState this') = ExpectingCertificate \<and>
      selectedCipherSuite (epochState this') = TLS_NULL_WITH_NULL_NULL)"
proof -
  let ?m = "sample_message ServerHello_t 1 [0, 0]"
  have h1: "handshakeType ?m = ServerHello_t"
    by (simp add: sample_message_def)
  have h2: "state (epochState sample_connected) = ExpectingServerHello"
    by (simp add: sample_connected_eq)
  have h3: "shCipherSuite (ServerHello_deserialize sample_externals ?m) = TLS_NULL_WITH_NULL_NULL"
    by (simp add: sample_defs)
  from serverHello_any_suite_advances [OF h1 h2, of sample_externals] h3
  have "\<exists>this'. handleHandshake sample_externals ?m sample_connected = Inr this' \<and>
      state (epochState this') = ExpectingCertificate \<and>
      selectedCipherSuite (epochState this') = TLS_NULL_WITH_NULL_NULL"
    by auto
  with h1 h2 h3 show ?thesis by blast
qed

lemma sendHandshakeMessage_loop_sequence:
  "handshakeSequence (snd (sendHandshakeMessage_loop x ms w this)) = handshakeSequence this + length ms"
  by (induction ms arbitrary: w this) (simp_all add: Let_def)

lemma sendHandshakeMessage_sequence:
  "handshakeSequence (sendHandshakeMessage x ms this) = handshakeSequence this + length ms"
  using sendHandshakeMessage_loop_sequence [of x ms "[]" this]
  by (cases "sendHandshakeMessage_loop x ms [] this")
    (simp add: sendHandshakeMessage_def sendDtlsMessage_def socket_send_def Let_def
      DtlsRecordReader_fromRecord_def)

lemma flight_sequence:
  "sendClientKeyExchangeFlight x this = Inr this' \<Longrightarrow>
   handshakeSequence this' = handshakeSequence this + 2"
  by (auto simp: flight_defs send_defs Let_def split: option.splits)


text \<open>
  Claim C8, as the class has it. Every handshake message sent adds one to the
  handshake-message sequence number (\<^verbatim>\<open>sendHandshakeMessage\<close> adds the number of its
  messages, the final flight adds two), and \<^verbatim>\<open>resetConnectionState\<close> leaves it
  alone. But \<^verbatim>\<open>handleHandshake\<close> first overwrites it with the message sequence number
  of the inbound message: after an inbound message it is that number plus the number of
  handshake messages sent in reply.
\<close>

theorem handshakeSequence_changes:
  "handshakeSequence (sendHandshakeMessage x ms this) = handshakeSequence this + length ms \<and>
   handshakeSequence (resetConnectionState x rnd this) = handshakeSequence this \<and>
   (\<forall>this'. sendClientKeyExchangeFlight x this = Inr this' \<longrightarrow>
      handshakeSequence this' = handshakeSequence this + 2) \<and>
   (\<forall>this'. handleHandshake x m this = Inr this' \<longrightarrow>
      handshakeSequence this' = messageSequence m +
        (if handshakeType m = HelloVerifyRequest_t \<and> state (epochState this) = ExpectingServerHello
            \<and> cookie (epochState this) \<noteq> hvrCookie (HelloVerifyRequest_deserialize x m) then 1
         else if handshakeType m = ServerHelloDone_t
            \<and> state (epochState this) = ExpectingServerHelloDone then 2
         else 0))"
proof -
  have reset: "handshakeSequence (resetConnectionState x rnd this) = handshakeSequence this"
    by (simp add: resetConnectionState_def)
  have inbound: "handshakeSequence this' = messageSequence m +
        (if handshakeType m = HelloVerifyRequest_t \<and> state (epochState this) = ExpectingServerHello
            \<and> cookie (epochState this) \<noteq> hvrCookie (HelloVerifyRequest_deserialize x m) then 1
         else if handshakeType m = ServerHelloDone_t
            \<and> state (epochState this) = ExpectingServerHelloDone then 2
         else 0)"
    if r: "handleHandshake x m this = Inr this'" for this'
  proof (cases "handshakeType m")
    case HelloVerifyRequest_t
    with r show ?thesis
      by (auto simp: handleHandshake_def handleHelloVerifyRequest_def sendClientHello_def
          sendHandshakeMessage_sequence console_log_def Let_def split: if_splits)
  next
    case ServerHello_t
    with r show ?thesis
      by (auto simp: handleHandshake_def handleServerHello_def console_log_def Let_def split: if_splits)
  next
    case Certificate_t
    with r show ?thesis
      by (auto simp: handleHandshake_def handleCertificateMessage_def deserialize_certificate_def
          handleCertificate_def console_log_def Let_def split: if_splits option.splits sum.splits)
  next
    case ServerKeyExchange_t
    with r show ?thesis
      by (auto simp: handleHandshake_def handleServerKeyExchange_def console_log_def Let_def
          split: if_splits option.splits sum.splits)
  next
    case ServerHelloDone_t
    with r show ?thesis
      by (auto simp: handleHandshake_def handleServerHelloDone_def console_log_def Let_def
          split: if_splits dest!: flight_sequence)
  qed (use r in \<open>auto simp: handleHandshake_def console_log_def Let_def\<close>)
  from sendHandshakeMessage_sequence reset flight_sequence inbound show ?thesis by blast
qed

text \<open>
  An instance of C8: the ServerHelloDone of the scenario has message sequence number 4;
  the socket's number was 3 and is 4 + 2 after the final flight.
\<close>

theorem handshakeSequence_changes_witness:
  "handleHandshake sample_externals (sample_message ServerHelloDone_t 4 []) sample_keyed
     = Inr (sample_finished\<lparr>trace := trace sample_keyed @
          [ConsoleLog ''DTLS Handshake (ServerHelloDone)'',
           SocketSend [0, 3, 4, 2, 7, 7, 0, 4, 1, 1, 1, 8, 9, 7, 7, 7, 7, 0, 0, 5, 0, 1]]\<rparr>) \<and>
   handshakeSequence sample_keyed = 3 \<and>
   handshakeSequence sample_finished = 4 + 2"
proof -
  let ?m = "sample_message ServerHelloDone_t 4 []"
  let ?s = "sample_finished\<lparr>trace := trace sample_keyed @
          [ConsoleLog ''DTLS Handshake (ServerHelloDone)'',
           SocketSend [0, 3, 4, 2, 7, 7, 0, 4, 1, 1, 1, 8, 9, 7, 7, 7, 7, 0, 0, 5, 0, 1]]\<rparr>"
  have r: "handleHandshake sample_externals ?m sample_keyed = Inr ?s"
    by (simp add: sample_finished_def sample_keyed_def handler_defs send_defs flight_defs
        sample_defs Let_def)
  have "\<forall>this'. handleHandshake sample_externals ?m sample_keyed = Inr this' \<longrightarrow>
      handshakeSequence this' = messageSequence ?m +
        (if handshakeType ?m = HelloVerifyRequest_t \<and> state (epochState sample_keyed) = ExpectingServerHello
            \<and> cookie (epochState sample_keyed) \<noteq> hvrCookie (HelloVerifyRequest_deserialize sample_externals ?m) then 1
         else if handshakeType ?m = ServerHelloDone_t
            \<and> state (epochState sample_keyed) = ExpectingServerHelloDone then 2
         else 0)"
    using handshakeSequence_changes [of sample_externals "[]" sample_keyed "[]" ?m] by blast
  with r have "handshakeSequence ?s = 4 + 2"
    by (simp add: sample_message_def sample_keyed_def)
  then have "handshakeSequence sample_finished = 4 + 2" by simp
  moreover have "handshakeSequence sample_keyed = 3" by (simp add: sample_keyed_def)
  ultimately show ?thesis using r by blast
qed

text \<open>
  The number decreases: the socket of the scenario has sent one ClientHello, so its
  number is 1; an inbound handshake message with message sequence number 0 (here a
  ServerHelloDone in the wrong state, which is dropped) sets it back to 0.
\<close>

theorem handshakeSequence_decreases:
  "handshakeSequence sample_connected = 1 \<and>
   map_sum id handshakeSequence
     (handleHandshake sample_externals (sample_message ServerHelloDone_t 0 []) sample_connected) = Inr 0"
  by (simp add: sample_connected_eq handler_defs send_defs sample_defs Let_def)

subsection \<open>The final client flight and its headers\<close>

lemma sendHandshakeMessage_loop_writer:
  "sendHandshakeMessage_loop x ms w this =
     (w @ concat (map (\<lambda>(i, m). Handshake_serialize x (handshakeReader_of x (handshakeSequence this + i) m))
                   (enumerate 0 ms)),
      this\<lparr>handshakeSequence := handshakeSequence this + length ms\<rparr>)"
proof (induction ms arbitrary: w this)
  case Nil
  show ?case by simp
next
  case (Cons m ms)
  have shift: "map (\<lambda>(i, m). Handshake_serialize x (handshakeReader_of x (handshakeSequence this + i) m))
                 (enumerate (Suc 0) ms)
             = map (\<lambda>(i, m). Handshake_serialize x (handshakeReader_of x (Suc (handshakeSequence this) + i) m))
                 (enumerate 0 ms)"
    by (simp add: enumerate_Suc_eq [of 0] apfst_def map_prod_def case_prod_beta)
  show ?case
    by (simp add: Let_def Cons.IH shift)
qed

lemma flight_trace:
  assumes "recordProtection (epochState this) = Some rp"
  shows "sendClientKeyExchangeFlight x this =
     Inr (this\<lparr>handshakeSequence := handshakeSequence this + 2,
              epoch := epoch this + 1,
              sequenceNumber := 2,
              trace := trace this @
               [SocketSend
                 (DtlsRecord_serialize x
                    (DtlsRecordReader_fromRecord Handshake (protocolVersion this) (epoch this)
                       (sequenceNumber this) (Handshake_serialize x (flight_handshakeReader x this)))
                  @ DtlsRecord_serialize x
                    (DtlsRecordReader_fromRecord ChangeCipherSpec (protocolVersion this) (epoch this)
                       (sequenceNumber this + 1) [1])
                  @ DtlsRecord_serialize x
                    (encryptClientPlaintext x rp
                       (DtlsRecordReader_fromRecord Handshake (protocolVersion this) (epoch this + 1) 1
                          (Handshake_serialize x
                             (flight_handshakeReader2
                                (this\<lparr>handshakeSequence := handshakeSequence this + 1\<rparr>))))))]\<rparr>)"
  using assms
  by (simp add: flight_defs send_defs Let_def)

text \<open>
  Claim C10. The header of the Finished message is built with fragment length 0 around
  a payload of the one byte 1. The header of the ClientKeyExchange in the same flight,
  and the header \<^verbatim>\<open>sendHandshakeMessage\<close> builds for each of its messages, hold the
  serialized message as payload and declare its byte length. These are the headers
  that go out: \<^verbatim>\<open>sendHandshakeMessage\<close> writes the serialized headers of its messages
  in one record, and the final flight writes the two headers in its first and third
  record.
\<close>

theorem finished_declares_no_fragment_length:
  "flight_handshakeReader2 this =
     \<lparr>outType = Finished_t, outMessageSequence = handshakeSequence this,
      outFragmentOffset = 0, outFragmentLength = 0, outBuffer = [1]\<rparr> \<and>
   length (outBuffer (flight_handshakeReader2 this)) = 1 \<and>
   outFragmentLength (flight_handshakeReader2 this) \<noteq> length (outBuffer (flight_handshakeReader2 this)) \<and>
   flight_handshakeReader x this =
     \<lparr>outType = ClientKeyExchange_t, outMessageSequence = handshakeSequence this,
      outFragmentOffset = 0,
      outFragmentLength = length (ClientKeyExchange_serialize x
        \<lparr>ckePublicKey = x25519_scalarMultBase x (clientRandom (epochState this))\<rparr>),
      outBuffer = ClientKeyExchange_serialize x
        \<lparr>ckePublicKey = x25519_scalarMultBase x (clientRandom (epochState this))\<rparr>\<rparr> \<and>
   handshakeReader_of x sq message =
     \<lparr>outType = getType message, outMessageSequence = sq, outFragmentOffset = 0,
      outFragmentLength = length (serialize x message), outBuffer = serialize x message\<rparr> \<and>
   sends (trace (sendHandshakeMessage x ms this)) = sends (trace this) @
     [DtlsRecord_serialize x
        \<lparr>recContentType = Handshake, recProtocolVersion = protocolVersion this,
         recEpoch = epoch this, recSequenceNumber = sequenceNumber this,
         recPayload =
           concat (map (\<lambda>(i, m). Handshake_serialize x
                           \<lparr>outType = getType m, outMessageSequence = handshakeSequence this + i,
                            outFragmentOffset = 0,
                            outFragmentLength = length (serialize x m),
                            outBuffer = serialize x m\<rparr>)
                      (enumerate 0 ms))\<rparr>] \<and>
   (recordProtection (epochState this) = Some rp \<longrightarrow>
      (\<exists>this'. sendClientKeyExchangeFlight x this = Inr this' \<and>
         sends (trace this') = sends (trace this) @
           [DtlsRecord_serialize x
              \<lparr>recContentType = Handshake, recProtocolVersion = protocolVersion this,
               recEpoch = epoch this, recSequenceNumber = sequenceNumber this,
               recPayload = Handshake_serialize x
                 \<lparr>outType = ClientKeyExchange_t, outMessageSequence = handshakeSequence this,
                  outFragmentOffset = 0,
                  outFragmentLength = length (ClientKeyExchange_serialize x
                    \<lparr>ckePublicKey = x25519_scalarMultBase x (clientRandom (epochState this))\<rparr>),
                  outBuffer = ClientKeyExchange_serialize x
                    \<lparr>ckePublicKey = x25519_scalarMultBase x (clientRandom (epochState this))\<rparr>\<rparr>\<rparr>
            @ DtlsRecord_serialize x
              \<lparr>recContentType = ChangeCipherSpec, recProtocolVersion = protocolVersion this,
               recEpoch = epoch this, recSequenceNumber = sequenceNumber this + 1,
               recPayload = [1]\<rparr>
            @ DtlsRecord_serialize x
              (encryptClientPlaintext x rp
                 \<lparr>recContentType = Handshake, recProtocolVersion = protocolVersion this,
                  recEpoch = epoch this + 1, recSequenceNumber = 1,
                  recPayload = Handshake_serialize x
                    \<lparr>outType = Finished_t, outMessageSequence = handshakeSequence this + 1,
                     outFragmentOffset = 0, outFragmentLength = 0, outBuffer = [1]\<rparr>\<rparr>)]))"
proof -
  have fin: "flight_handshakeReader2 this =
     \<lparr>outType = Finished_t, outMessageSequence = handshakeSequence this,
      outFragmentOffset = 0, outFragmentLength = 0, outBuffer = [1]\<rparr>"
    by (simp add: flight_handshakeReader2_def HandshakeReader_fromHandshake_def)
  have cke: "flight_handshakeReader x this =
     \<lparr>outType = ClientKeyExchange_t, outMessageSequence = handshakeSequence this,
      outFragmentOffset = 0,
      outFragmentLength = length (ClientKeyExchange_serialize x
        \<lparr>ckePublicKey = x25519_scalarMultBase x (clientRandom (epochState this))\<rparr>),
      outBuffer = ClientKeyExchange_serialize x
        \<lparr>ckePublicKey = x25519_scalarMultBase x (clientRandom (epochState this))\<rparr>\<rparr>"
    by (simp add: flight_handshakeReader_def new_ClientKeyExchange_def
        HandshakeReader_fromHandshake_def Let_def)
  have other: "handshakeReader_of x sq message =
     \<lparr>outType = getType message, outMessageSequence = sq, outFragmentOffset = 0,
      outFragmentLength = length (serialize x message), outBuffer = serialize x message\<rparr>"
    for sq message
    by (simp add: handshakeReader_of_def HandshakeReader_fromHandshake_def Let_def)
  have sent: "sends (trace (sendHandshakeMessage x ms this)) = sends (trace this) @
     [DtlsRecord_serialize x
        \<lparr>recContentType = Handshake, recProtocolVersion = protocolVersion this,
         recEpoch = epoch this, recSequenceNumber = sequenceNumber this,
         recPayload =
           concat (map (\<lambda>(i, m). Handshake_serialize x
                           \<lparr>outType = getType m, outMessageSequence = handshakeSequence this + i,
                            outFragmentOffset = 0,
                            outFragmentLength = length (serialize x m),
                            outBuffer = serialize x m\<rparr>)
                      (enumerate 0 ms))\<rparr>]"
    by (simp add: sendHandshakeMessage_def sendHandshakeMessage_loop_writer sendDtlsMessage_def
        socket_send_def sends_append other DtlsRecordReader_fromRecord_def Let_def)
  have flight: "\<exists>this'. sendClientKeyExchangeFlight x this = Inr this' \<and>
         sends (trace this') = sends (trace this) @
           [DtlsRecord_serialize x
              \<lparr>recContentType = Handshake, recProtocolVersion = protocolVersion this,
               recEpoch = epoch this, recSequenceNumber = sequenceNumber this,
               recPayload = Handshake_serialize x
                 \<lparr>outType = ClientKeyExchange_t, outMessageSequence = handshakeSequence this,
                  outFragmentOffset = 0,
                  outFragmentLength = length (ClientKeyExchange_serialize x
                    \<lparr>ckePublicKey = x25519_scalarMultBase x (clientRandom (epochState this))\<rparr>),
                  outBuffer = ClientKeyExchange_serialize x
                    \<lparr>ckePublicKey = x25519_scalarMultBase x (clientRandom (epochState this))\<rparr>\<rparr>\<rparr>
            @ DtlsRecord_serialize x
              \<lparr>recContentType = ChangeCipherSpec, recProtocolVersion = protocolVersion this,
               recEpoch = epoch this, recSequenceNumber = sequenceNumber this + 1,
               recPayload = [1]\<rparr>
            @ DtlsRecord_serialize x
              (encryptClientPlaintext x rp
                 \<lparr>recContentType = Handshake, recProtocolVersion = protocolVersion this,
                  recEpoch = epoch this + 1, recSequenceNumber = 1,
                  recPayload = Handshake_serialize x
                    \<lparr>outType = Finished_t, outMessageSequence = handshakeSequence this + 1,
                     outFragmentOffset = 0, outFragmentLength = 0, outBuffer = [1]\<rparr>\<rparr>)]"
    if "recordProtection (epochState this) = Some rp"
    using flight_trace [OF that, of x]
    by (simp add: sends_append cke flight_handshakeReader2_def HandshakeReader_fromHandshake_def
        DtlsRecordReader_fromRecord_def)
  from fin cke other sent flight show ?thesis by simp
qed

text \<open>
  An instance of C10 on the socket of the scenario. In the sample encoding a handshake
  message is its message sequence number, its declared fragment length and its payload,
  and a record is its epoch, its sequence number and its payload. The ClientHello that
  \<^verbatim>\<open>sendHandshakeMessage\<close> sends declares 3 for its three bytes, the ClientKeyExchange
  of the flight 2 for its two, and the Finished message 0 for its one byte (the bytes
  4, 0, 1 at the end).
\<close>

theorem finished_declares_no_fragment_length_witness:
  "recordProtection (epochState sample_keyed) =
     Some \<lparr>rpMasterSecret = [8, 9, 7, 7, 7, 7, 0, 0], rpServerRandom = [0, 0], rpClientRandom = [7, 7]\<rparr> \<and>
   (\<exists>this'. sendClientKeyExchangeFlight sample_externals sample_keyed = Inr this' \<and>
      sends (trace this') = sends (trace sample_keyed) @
        [[0, 3, 3, 2, 7, 7] @ [0, 4, 1] @ [1, 1, 8, 9, 7, 7, 7, 7, 0, 0, 4, 0, 1]]) \<and>
   sends (trace (sendHandshakeMessage sample_externals
        [ClientHelloMessage (new_ClientHello sample_externals sample_keyed),
         ClientKeyExchangeMessage (new_ClientKeyExchange sample_externals sample_keyed)] sample_keyed))
     = sends (trace sample_keyed) @ [[0, 3] @ [3, 3, 7, 7, 0xAB] @ [4, 2, 7, 7]]"
proof -
  let ?rp = "\<lparr>rpMasterSecret = [8, 9, 7, 7, 7, 7, 0, 0], rpServerRandom = [0, 0], rpClientRandom = [7, 7]\<rparr>"
  let ?ms = "[ClientHelloMessage (new_ClientHello sample_externals sample_keyed),
         ClientKeyExchangeMessage (new_ClientKeyExchange sample_externals sample_keyed)]"
  have h: "recordProtection (epochState sample_keyed) = Some ?rp"
    by (simp add: sample_keyed_def)
  note inst = finished_declares_no_fragment_length [of sample_keyed sample_externals 0
      "ClientHelloMessage (new_ClientHello sample_externals sample_keyed)" ?ms ?rp]
  from inst h
  obtain this' where r: "sendClientKeyExchangeFlight sample_externals sample_keyed = Inr this'"
    and t: "sends (trace this') = sends (trace sample_keyed) @
           [DtlsRecord_serialize sample_externals
              \<lparr>recContentType = Handshake, recProtocolVersion = protocolVersion sample_keyed,
               recEpoch = epoch sample_keyed, recSequenceNumber = sequenceNumber sample_keyed,
               recPayload = Handshake_serialize sample_externals
                 \<lparr>outType = ClientKeyExchange_t, outMessageSequence = handshakeSequence sample_keyed,
                  outFragmentOffset = 0,
                  outFragmentLength = length (ClientKeyExchange_serialize sample_externals
                    \<lparr>ckePublicKey = x25519_scalarMultBase sample_externals (clientRandom (epochState sample_keyed))\<rparr>),
                  outBuffer = ClientKeyExchange_serialize sample_externals
                    \<lparr>ckePublicKey = x25519_scalarMultBase sample_externals (clientRandom (epochState sample_keyed))\<rparr>\<rparr>\<rparr>
            @ DtlsRecord_serialize sample_externals
              \<lparr>recContentType = ChangeCipherSpec, recProtocolVersion = protocolVersion sample_keyed,
               recEpoch = epoch sample_keyed, recSequenceNumber = sequenceNumber sample_keyed + 1,
               recPayload = [1]\<rparr>
            @ DtlsRecord_serialize sample_externals
              (encryptClientPlaintext sample_externals ?rp
                 \<lparr>recContentType = Handshake, recProtocolVersion = protocolVersion sample_keyed,
                  recEpoch = epoch sample_keyed + 1, recSequenceNumber = 1,
                  recPayload = Handshake_serialize sample_externals
                    \<lparr>outType = Finished_t, outMessageSequence = handshakeSequence sample_keyed + 1,
                     outFragmentOffset = 0, outFragmentLength = 0, outBuffer = [1]\<rparr>\<rparr>)]"
    by blast
  have flight: "sends (trace this') = sends (trace sample_keyed) @
        [[0, 3, 3, 2, 7, 7] @ [0, 4, 1] @ [1, 1, 8, 9, 7, 7, 7, 7, 0, 0, 4, 0, 1]]"
    unfolding t by (simp add: sample_keyed_def sample_defs)
  from inst have "sends (trace (sendHandshakeMessage sample_externals ?ms sample_keyed)) =
     sends (trace sample_keyed) @
     [DtlsRecord_serialize sample_externals
        \<lparr>recContentType = Handshake, recProtocolVersion = protocolVersion sample_keyed,
         recEpoch = epoch sample_keyed, recSequenceNumber = sequenceNumber sample_keyed,
         recPayload =
           concat (map (\<lambda>(i, m). Handshake_serialize sample_externals
                           \<lparr>outType = getType m, outMessageSequence = handshakeSequence sample_keyed + i,
                            outFragmentOffset = 0,
                            outFragmentLength = length (serialize sample_externals m),
                            outBuffer = serialize sample_externals m\<rparr>)
                      (enumerate 0 ?ms))\<rparr>]"
    by (elim conjE)
  then have hello: "sends (trace (sendHandshakeMessage sample_externals ?ms sample_keyed))
     = sends (trace sample_keyed) @ [[0, 3] @ [3, 3, 7, 7, 0xAB] @ [4, 2, 7, 7]]"
    by (simp add: sample_keyed_def sample_defs new_ClientHello_def new_ClientKeyExchange_def)
  from h r flight hello show ?thesis by blast
qed

text \<open>
  Claim C1, as the class has it. A ServerHelloDone handled in state
  \<open>ExpectingServerHelloDone\<close> (the record protection is set in that state) moves to
  \<open>ExpectingChangeCipherSpec\<close> and writes to the transport once: the ClientKeyExchange
  record and the ChangeCipherSpec record with payload 1, both at the epoch before the
  increment, then the encrypted Finished record at the epoch after it, with the record
  sequence number 1. The socket's epoch grows by one and its record sequence number
  ends at 2. A new socket's epoch is 0, not 1, and its record sequence number is 1.
\<close>

theorem serverHelloDone_final_flight:
  assumes "handshakeType m = ServerHelloDone_t"
    and "state (epochState this) = ExpectingServerHelloDone"
    and "recordProtection (epochState this) = Some rp"
  shows "epoch (new_DtlsSocket x rnd) = 0 \<and> sequenceNumber (new_DtlsSocket x rnd) = 1 \<and>
    (\<exists>this'. handleHandshake x m this = Inr this' \<and>
     state (epochState this') = ExpectingChangeCipherSpec \<and>
     epoch this' = epoch this + 1 \<and>
     sequenceNumber this' = 2 \<and>
     trace this' = trace this @
       [ConsoleLog ''DTLS Handshake (ServerHelloDone)'',
        SocketSend
          (DtlsRecord_serialize x
             \<lparr>recContentType = Handshake, recProtocolVersion = protocolVersion this,
              recEpoch = epoch this, recSequenceNumber = sequenceNumber this,
              recPayload = Handshake_serialize x
                \<lparr>outType = ClientKeyExchange_t, outMessageSequence = messageSequence m,
                 outFragmentOffset = 0,
                 outFragmentLength = length (ClientKeyExchange_serialize x
                   \<lparr>ckePublicKey = x25519_scalarMultBase x (clientRandom (epochState this))\<rparr>),
                 outBuffer = ClientKeyExchange_serialize x
                   \<lparr>ckePublicKey = x25519_scalarMultBase x (clientRandom (epochState this))\<rparr>\<rparr>\<rparr>
           @ DtlsRecord_serialize x
             \<lparr>recContentType = ChangeCipherSpec, recProtocolVersion = protocolVersion this,
              recEpoch = epoch this, recSequenceNumber = sequenceNumber this + 1,
              recPayload = [1]\<rparr>
           @ DtlsRecord_serialize x
             (encryptClientPlaintext x rp
                \<lparr>recContentType = Handshake, recProtocolVersion = protocolVersion this,
                 recEpoch = epoch this + 1, recSequenceNumber = 1,
                 recPayload = Handshake_serialize x
                   \<lparr>outType = Finished_t, outMessageSequence = messageSequence m + 1,
                    outFragmentOffset = 0, outFragmentLength = 0, outBuffer = [1]\<rparr>\<rparr>))])"
  using assms
  by (simp add: new_DtlsSocket_def resetConnectionState_def handleHandshake_def
      handleServerHelloDone_def flight_defs send_defs Let_def)

text \<open>
  An instance of C1: the ServerHelloDone of the scenario.
\<close>

theorem serverHelloDone_final_flight_witness:
  "handshakeType (sample_message ServerHelloDone_t 4 []) = ServerHelloDone_t \<and>
   state (epochState sample_keyed) = ExpectingServerHelloDone \<and>
   recordProtection (epochState sample_keyed) =
     Some \<lparr>rpMasterSecret = [8, 9, 7, 7, 7, 7, 0, 0], rpServerRandom = [0, 0], rpClientRandom = [7, 7]\<rparr> \<and>
   (\<exists>this'. handleHandshake sample_externals (sample_message ServerHelloDone_t 4 []) sample_keyed = Inr this' \<and>
      state (epochState this') = ExpectingChangeCipherSpec \<and>
      epoch this' = epoch sample_keyed + 1 \<and>
      sequenceNumber this' = 2)"
proof -
  let ?rp = "\<lparr>rpMasterSecret = [8, 9, 7, 7, 7, 7, 0, 0], rpServerRandom = [0, 0], rpClientRandom = [7, 7]\<rparr>"
  let ?m = "sample_message ServerHelloDone_t 4 []"
  have h1: "handshakeType ?m = ServerHelloDone_t" by (simp add: sample_message_def)
  have h2: "state (epochState sample_keyed) = ExpectingServerHelloDone"
    by (simp add: sample_keyed_def)
  have h3: "recordProtection (epochState sample_keyed) = Some ?rp"
    by (simp add: sample_keyed_def)
  from serverHelloDone_final_flight [OF h1 h2 h3, of sample_externals "[]"]
  have "\<exists>this'. handleHandshake sample_externals ?m sample_keyed = Inr this' \<and>
      state (epochState this') = ExpectingChangeCipherSpec \<and>
      epoch this' = epoch sample_keyed + 1 \<and>
      sequenceNumber this' = 2"
    by blast
  with h1 h2 h3 show ?thesis by blast
qed

text \<open>
  In the end-to-end scenario the epoch goes from 0 to 1 during the final flight, not
  from 1 to 2. The field \<open>epochState_epoch\<close>, which is 1 from the start, stamps no
  record and never changes.
\<close>

theorem first_flight_epoch_zero_to_one:
  "handleMessages sample_externals sample_server_flight sample_connected = Inr sample_keyed \<and>
   state (epochState sample_keyed) = ExpectingServerHelloDone \<and>
   epoch sample_keyed = 0 \<and>
   handleMessage sample_externals sample_ServerHelloDone sample_keyed = Inr sample_finished \<and>
   state (epochState sample_finished) = ExpectingChangeCipherSpec \<and>
   epoch sample_finished = 1 \<and>
   epochState_epoch (epochState sample_finished) = 1"
  using sample_server_flight_run sample_ServerHelloDone_run
  by (simp add: sample_keyed_def sample_finished_def)

subsection \<open>Key exchange and state checks\<close>

lemma sample_certified_run:
  "handleMessages sample_externals
     [sample_record [sample_message HelloVerifyRequest_t 0 [0xAB]],
      sample_record [sample_message ServerHello_t 1 [0xC0, 0x2F],
                     sample_message Certificate_t 2 [5, 6]]]
     sample_connected = Inr sample_certified"
  by (simp add: sample_connected_eq sample_certified_def handler_defs send_defs sample_defs Let_def)

text \<open>
  No handler writes the two randoms of the epoch state: after \<^verbatim>\<open>connect\<close> the client
  random is the one generated at the reset and the server random is still the null
  random, whatever the server has sent.
\<close>

lemma sendClientHello_randoms:
  "clientRandom (epochState (sendClientHello x r this)) = clientRandom (epochState this) \<and>
   serverRandom (epochState (sendClientHello x r this)) = serverRandom (epochState this)"
  by (simp add: sendClientHello_def sendHandshakeMessage_def sendHandshakeMessage_loop_writer
      sendDtlsMessage_def socket_send_def Let_def)

lemma handleHandshake_randoms:
  assumes "handleHandshake x m this = Inr this'"
  shows "clientRandom (epochState this') = clientRandom (epochState this) \<and>
     serverRandom (epochState this') = serverRandom (epochState this)"
proof (cases "handshakeType m")
  case HelloVerifyRequest_t
  with assms show ?thesis
    by (auto simp: handleHandshake_def handleHelloVerifyRequest_def sendClientHello_randoms
        console_log_def Let_def split: if_splits)
next
  case ServerHello_t
  with assms show ?thesis
    by (auto simp: handleHandshake_def handleServerHello_def console_log_def Let_def split: if_splits)
next
  case Certificate_t
  with assms show ?thesis
    by (auto simp: handleHandshake_def handleCertificateMessage_def deserialize_certificate_def
        handleCertificate_def console_log_def Let_def split: if_splits option.splits sum.splits)
next
  case ServerKeyExchange_t
  with assms show ?thesis
    by (auto simp: handleHandshake_def handleServerKeyExchange_def console_log_def Let_def
        split: if_splits option.splits sum.splits)
next
  case ServerHelloDone_t
  with assms show ?thesis
    by (auto simp: handleHandshake_def handleServerHelloDone_def flight_defs send_defs Let_def
        split: if_splits option.splits)
qed (use assms in \<open>auto simp: handleHandshake_def console_log_def Let_def\<close>)

lemma handleHandshakes_randoms:
  "handleHandshakes x ms this = Inr this' \<Longrightarrow>
   clientRandom (epochState this') = clientRandom (epochState this) \<and>
   serverRandom (epochState this') = serverRandom (epochState this)"
proof (induction ms arbitrary: this)
  case Nil
  then show ?case by simp
next
  case (Cons m ms)
  then obtain s where s: "handleHandshake x m this = Inr s" and r: "handleHandshakes x ms s = Inr this'"
    by (auto split: sum.splits)
  from handleHandshake_randoms [OF s] Cons.IH [OF r] show ?case by simp
qed

lemma call_handlers_epochState:
  "epochState (foldl (call_handler reason) s hs) = epochState s"
proof (induction hs arbitrary: s)
  case Nil
  show ?case by simp
next
  case (Cons h hs)
  then show ?case by (cases h) simp_all
qed

lemma handleMessage_randoms:
  assumes "handleMessage x r this = Inr this'"
  shows "clientRandom (epochState this') = clientRandom (epochState this) \<and>
     serverRandom (epochState this') = serverRandom (epochState this)"
proof -
  define s where "s = console_log (''DTLS Record ('' @ ContentType_name (contentType r) @ '')'') this"
  have same: "epochState s = epochState this" by (simp add: s_def console_log_def)
  have eq: "handleMessage x r this =
     (if contentType r = Alert
      then (if isFatal (alertPacket r)
            then Inr (emitDisconnect (''DTLS Alert: '' @ alertToString (alertPacket r)) s)
            else Inr (console_log (alertToString (alertPacket r)) s))
      else if contentType r = Handshake then handleHandshakes x (handshakeMessages r) s
      else Inr s)"
    by (simp add: handleMessage_def s_def Let_def)
  from assms handleHandshakes_randoms [of x "handshakeMessages r" s this'] same show ?thesis
    unfolding eq
    by (auto simp: emitDisconnect_def call_handlers_epochState console_log_def split: if_splits)
qed

lemma handleMessages_randoms:
  "handleMessages x rs this = Inr this' \<Longrightarrow>
   clientRandom (epochState this') = clientRandom (epochState this) \<and>
   serverRandom (epochState this') = serverRandom (epochState this)"
proof (induction rs arbitrary: this)
  case Nil
  then show ?case by simp
next
  case (Cons r rs)
  then obtain s where s: "handleMessage x r this = Inr s" and rest: "handleMessages x rs s = Inr this'"
    by (auto split: sum.splits)
  from handleMessage_randoms [OF s] Cons.IH [OF rest] show ?case by simp
qed

lemma randoms_after_connect:
  assumes "handleMessages x rs (connect x rnd s0) = Inr this'"
  shows "clientRandom (epochState this') = rnd \<and> serverRandom (epochState this') = Random_NULL x"
proof -
  have "clientRandom (epochState (connect x rnd s0)) = rnd \<and>
      serverRandom (epochState (connect x rnd s0)) = Random_NULL x"
    by (simp add: connect_def underscore_connect_def addDisconnectHandler_def
        sendClientHello_randoms resetConnectionState_def Let_def)
  with handleMessages_randoms [OF assms] show ?thesis by simp
qed

text \<open>
  Claim C4, as the class has it. With a certificate stored (and its public key, which
  \<^verbatim>\<open>handleCertificate\<close> requires before it stores one), a ServerKeyExchange is checked
  in this order: curve type, selected curve, hash algorithm, signature algorithm, the
  RSA signature over the digest of the first \<open>4 + length key\<close> bytes of the
  serialized message, and last the cipher suite selected earlier. The first check that
  fails decides the log line, and nothing but the log changes; for the signature this
  is the case in which the verification returns false. When the verification raises,
  its exception leaves the handler: nothing is logged and no transition is made. When
  all checks pass, the shared secret is the scalar multiplication of the client random
  with the peer's key, the master secret its expansion under the label
  \<^verbatim>\<open>master secert\<close> with the seed client random then server random, both as the epoch
  state holds them; the record protection is built from the master secret, the server
  random and the client random, the master secret is stored, and the state becomes
  \<open>ExpectingServerHelloDone\<close>. The randoms the epoch state holds after \<^verbatim>\<open>connect\<close>
  are the client's generated one and the null random.
\<close>

theorem serverKeyExchange_checks_and_derivation:
  assumes "serverCertificate (epochState this) = Some certificate"
    and "publicKey certificate = Some rsaKey"
  shows "handleServerKeyExchange x ke this =
    (if curveType ke \<noteq> 0x03
       then Inr (this\<lparr>trace := trace this @ [ConsoleLog ''Unsupported curve type'']\<rparr>)
     else if selectedCurve ke \<noteq> 0x001d
       then Inr (this\<lparr>trace := trace this @ [ConsoleLog ''Unsupported selected curve'']\<rparr>)
     else if hashAlgorithm ke \<noteq> 0x04
       then Inr (this\<lparr>trace := trace this @ [ConsoleLog ''Unsupported hash algorithm'']\<rparr>)
     else if signatureAlgorithm ke \<noteq> 0x01
       then Inr (this\<lparr>trace := trace this @ [ConsoleLog ''Unsupported signature algorithm'']\<rparr>)
     else case rsa_verify x rsaKey
                 (sha256_digest x (take (4 + length (skeKey ke)) (ServerKeyExchange_serialize x ke)))
                 (skeSignature ke) of
       None \<Rightarrow> Inl ForgeError
     | Some verified \<Rightarrow>
       if \<not> verified
         then Inr (this\<lparr>trace := trace this @ [ConsoleLog ''signature failure'']\<rparr>)
       else if selectedCipherSuite (epochState this) \<noteq> TLS_ECDHE_RSA_WITH_AES_128_GCM_SHA256
         then Inr (this\<lparr>trace := trace this @ [ConsoleLog ''Unsupported cipher suite'']\<rparr>)
       else Inr (this\<lparr>epochState := (epochState this)
            \<lparr>recordProtection := Some
               \<lparr>rpMasterSecret =
                  expandSecret x
                    (x25519_scalarMult x (clientRandom (epochState this)) (skeKey ke))
                    (TextEncoder_encode ''master secert'')
                    (clientRandom (epochState this) @ serverRandom (epochState this)),
                rpServerRandom = serverRandom (epochState this),
                rpClientRandom = clientRandom (epochState this)\<rparr>,
             state := ExpectingServerHelloDone,
             masterSecret :=
               expandSecret x
                 (x25519_scalarMult x (clientRandom (epochState this)) (skeKey ke))
                 (TextEncoder_encode ''master secert'')
                 (clientRandom (epochState this) @ serverRandom (epochState this))\<rparr>\<rparr>)) \<and>
    (handleMessages x rs (connect x rnd s0) = Inr reached \<longrightarrow>
       clientRandom (epochState reached) = rnd \<and>
       serverRandom (epochState reached) = Random_NULL x)"
proof -
  have "handleMessages x rs (connect x rnd s0) = Inr reached \<longrightarrow>
       clientRandom (epochState reached) = rnd \<and>
       serverRandom (epochState reached) = Random_NULL x"
    using randoms_after_connect [of x rs rnd s0 reached] by blast
  with assms show ?thesis
    by (simp add: handleServerKeyExchange_def console_log_def Let_def split: option.splits)
qed

text \<open>
  Instances of C4 on the socket of the scenario, which has stored its certificate and
  holds no keys yet: the valid ServerKeyExchange derives the keys and moves on; the
  same message with a signature of the right length and a wrong byte is logged and
  dropped; with a signature of the wrong length the verification raises. The socket
  was reached from \<^verbatim>\<open>connect\<close>, and its server random is the null random.
\<close>

theorem serverKeyExchange_checks_and_derivation_witness:
  "serverCertificate (epochState sample_certified) = Some \<lparr>publicKey = Some [5, 6]\<rparr> \<and>
   publicKey \<lparr>publicKey = Some [5, 6]\<rparr> = Some [5, 6] \<and>
   recordProtection (epochState sample_certified) = None \<and>
   map_sum id (\<lambda>s. (state (epochState s), masterSecret (epochState s), recordProtection (epochState s)))
     (handleServerKeyExchange sample_externals
        \<lparr>curveType = 3, selectedCurve = 0x1D, hashAlgorithm = 4, signatureAlgorithm = 1,
         skeKey = [8, 9], skeSignature = [5, 6, 3, 0, 0x1D, 2, 8, 9]\<rparr>
        sample_certified)
   = Inr (ExpectingServerHelloDone, [8, 9, 7, 7, 7, 7, 0, 0],
          Some \<lparr>rpMasterSecret = [8, 9, 7, 7, 7, 7, 0, 0], rpServerRandom = [0, 0],
                rpClientRandom = [7, 7]\<rparr>) \<and>
   handleServerKeyExchange sample_externals
        \<lparr>curveType = 3, selectedCurve = 0x1D, hashAlgorithm = 4, signatureAlgorithm = 1,
         skeKey = [8, 9], skeSignature = [5, 6, 3, 0, 0x1D, 2, 8, 0]\<rparr>
        sample_certified
   = Inr (sample_certified\<lparr>trace := trace sample_certified @ [ConsoleLog ''signature failure'']\<rparr>) \<and>
   handleServerKeyExchange sample_externals
        \<lparr>curveType = 3, selectedCurve = 0x1D, hashAlgorithm = 4, signatureAlgorithm = 1,
         skeKey = [8, 9], skeSignature = [5, 6]\<rparr>
        sample_certified
   = Inl ForgeError \<and>
   handleMessages sample_externals
     [sample_record [sample_message HelloVerifyRequest_t 0 [0xAB]],
      sample_record [sample_message ServerHello_t 1 [0xC0, 0x2F],
                     sample_message Certificate_t 2 [5, 6]]]
     (connect sample_externals [7, 7] (new_DtlsSocket sample_externals [9, 9])) = Inr sample_certified \<and>
   serverRandom (epochState sample_certified) = Random_NULL sample_externals"
proof -
  let ?rs = "[sample_record [sample_message HelloVerifyRequest_t 0 [0xAB]],
      sample_record [sample_message ServerHello_t 1 [0xC0, 0x2F],
                     sample_message Certificate_t 2 [5, 6]]]"
  have h1: "serverCertificate (epochState sample_certified) = Some \<lparr>publicKey = Some [5, 6]\<rparr>"
    by (simp add: sample_certified_def)
  have h2: "publicKey \<lparr>publicKey = Some [5, 6]\<rparr> = Some [5, 6]" by simp
  have h3: "recordProtection (epochState sample_certified) = None"
    by (simp add: sample_certified_def)
  have run: "handleMessages sample_externals ?rs
      (connect sample_externals [7, 7] (new_DtlsSocket sample_externals [9, 9])) = Inr sample_certified"
    using sample_certified_run by (simp add: sample_connected_def)
  note inst = serverKeyExchange_checks_and_derivation [OF h1 h2, of sample_externals _ ?rs "[7, 7]"
      "new_DtlsSocket sample_externals [9, 9]" sample_certified]
  have valid: "map_sum id (\<lambda>s. (state (epochState s), masterSecret (epochState s), recordProtection (epochState s)))
     (handleServerKeyExchange sample_externals
        \<lparr>curveType = 3, selectedCurve = 0x1D, hashAlgorithm = 4, signatureAlgorithm = 1,
         skeKey = [8, 9], skeSignature = [5, 6, 3, 0, 0x1D, 2, 8, 9]\<rparr>
        sample_certified)
   = Inr (ExpectingServerHelloDone, [8, 9, 7, 7, 7, 7, 0, 0],
          Some \<lparr>rpMasterSecret = [8, 9, 7, 7, 7, 7, 0, 0], rpServerRandom = [0, 0],
                rpClientRandom = [7, 7]\<rparr>)"
    unfolding inst [THEN conjunct1]
    by (simp add: sample_certified_def sample_defs)
  have wrong: "handleServerKeyExchange sample_externals
        \<lparr>curveType = 3, selectedCurve = 0x1D, hashAlgorithm = 4, signatureAlgorithm = 1,
         skeKey = [8, 9], skeSignature = [5, 6, 3, 0, 0x1D, 2, 8, 0]\<rparr>
        sample_certified
   = Inr (sample_certified\<lparr>trace := trace sample_certified @ [ConsoleLog ''signature failure'']\<rparr>)"
    unfolding inst [THEN conjunct1]
    by (simp add: sample_defs)
  have raised: "handleServerKeyExchange sample_externals
        \<lparr>curveType = 3, selectedCurve = 0x1D, hashAlgorithm = 4, signatureAlgorithm = 1,
         skeKey = [8, 9], skeSignature = [5, 6]\<rparr>
        sample_certified
   = Inl ForgeError"
    unfolding inst [THEN conjunct1]
    by (simp add: sample_defs)
  from inst [THEN conjunct2] run
  have null: "serverRandom (epochState sample_certified) = Random_NULL sample_externals"
    by blast
  from h1 h2 h3 valid wrong raised run null show ?thesis by blast
qed

text \<open>
  The check the claim leaves out. The socket of the scenario receives the Certificate
  and the valid ServerKeyExchange without a ServerHello before them: the certificate is
  stored, every check of the claim passes, but the selected suite is still
  \<open>TLS_NULL_WITH_NULL_NULL\<close>, so the message is logged and dropped; no master
  secret, no record protection, no transition.
\<close>

theorem serverKeyExchange_unsupported_suite:
  "map_sum id
     (\<lambda>s. (serverCertificate (epochState s), selectedCipherSuite (epochState s),
           state (epochState s), masterSecret (epochState s), recordProtection (epochState s),
           last (trace s)))
     (handleHandshakes sample_externals
        [sample_message Certificate_t 2 [5, 6],
         sample_message ServerKeyExchange_t 3
           [3, 0, 0x1D, 2, 8, 9, 4, 1, 5, 6, 3, 0, 0x1D, 2, 8, 9]]
        sample_connected)
   = Inr (Some \<lparr>publicKey = Some [5, 6]\<rparr>, TLS_NULL_WITH_NULL_NULL,
          ExpectingServerKeyExchange, [], None, ConsoleLog ''Unsupported cipher suite'')"
  by (simp add: sample_connected_eq handler_defs send_defs sample_defs Let_def)

text \<open>
  Claim C9, as the class has it. A HelloVerifyRequest or a ServerHello outside
  \<open>ExpectingServerHello\<close>, and a ServerHelloDone outside
  \<open>ExpectingServerHelloDone\<close>, are logged and dropped: the epoch state stays as it is,
  and of the socket only the log and the handshake-message sequence number (which takes
  the inbound message's) change. A ServerKeyExchange is checked against the stored
  certificate, not against the state: with no certificate stored it is logged and
  dropped in the same way.
\<close>

theorem wrong_state_messages_dropped:
  "(handshakeType m = HelloVerifyRequest_t \<and> state (epochState this) \<noteq> ExpectingServerHello \<longrightarrow>
      handleHandshake x m this =
        Inr (this\<lparr>handshakeSequence := messageSequence m,
                 trace := trace this @
                   [ConsoleLog ''DTLS Handshake (HelloVerifyRequest)'',
                    ConsoleLog (''Dropping unexpected HelloVerifyRequest handshake message. State(''
                       @ HandshakeState_name (state (epochState this)) @ '')'')]\<rparr>)) \<and>
   (handshakeType m = ServerHello_t \<and> state (epochState this) \<noteq> ExpectingServerHello \<longrightarrow>
      handleHandshake x m this =
        Inr (this\<lparr>handshakeSequence := messageSequence m,
                 trace := trace this @
                   [ConsoleLog ''DTLS Handshake (ServerHello)'',
                    ConsoleLog (''Dropping unexpected ServerHello handshake message. State(''
                       @ HandshakeState_name (state (epochState this)) @ '')'')]\<rparr>)) \<and>
   (handshakeType m = ServerHelloDone_t \<and> state (epochState this) \<noteq> ExpectingServerHelloDone \<longrightarrow>
      handleHandshake x m this =
        Inr (this\<lparr>handshakeSequence := messageSequence m,
                 trace := trace this @
                   [ConsoleLog ''DTLS Handshake (ServerHelloDone)'', ConsoleLog ''invalid state'']\<rparr>)) \<and>
   (handshakeType m = ServerKeyExchange_t \<and> serverCertificate (epochState this) = None \<longrightarrow>
      (\<exists>msg. handleHandshake x m this =
        Inr (this\<lparr>handshakeSequence := messageSequence m,
                 trace := trace this @
                   [ConsoleLog ''DTLS Handshake (ServerKeyExchange)'', ConsoleLog msg]\<rparr>)))"
  by (auto simp: handleHandshake_def handleHelloVerifyRequest_def handleServerHello_def
      handleServerHelloDone_def handleServerKeyExchange_def console_log_def Let_def)

text \<open>
  An instance of C9: a HelloVerifyRequest that arrives in state
  \<open>ExpectingServerHelloDone\<close>.
\<close>

theorem wrong_state_messages_dropped_witness:
  "handshakeType (sample_message HelloVerifyRequest_t 5 [0xCD]) = HelloVerifyRequest_t \<and>
   state (epochState sample_keyed) \<noteq> ExpectingServerHello \<and>
   handleHandshake sample_externals (sample_message HelloVerifyRequest_t 5 [0xCD]) sample_keyed =
     Inr (sample_keyed\<lparr>handshakeSequence := 5,
            trace := trace sample_keyed @
              [ConsoleLog ''DTLS Handshake (HelloVerifyRequest)'',
               ConsoleLog ''Dropping unexpected HelloVerifyRequest handshake message. State(ExpectingServerHelloDone)'']\<rparr>)"
proof -
  let ?m = "sample_message HelloVerifyRequest_t 5 [0xCD]"
  have h1: "handshakeType ?m = HelloVerifyRequest_t" by (simp add: sample_message_def)
  have h2: "state (epochState sample_keyed) \<noteq> ExpectingServerHello" by (simp add: sample_keyed_def)
  from wrong_state_messages_dropped [of ?m sample_keyed sample_externals] h1 h2
  have "handleHandshake sample_externals ?m sample_keyed =
        Inr (sample_keyed\<lparr>handshakeSequence := messageSequence ?m,
                 trace := trace sample_keyed @
                   [ConsoleLog ''DTLS Handshake (HelloVerifyRequest)'',
                    ConsoleLog (''Dropping unexpected HelloVerifyRequest handshake message. State(''
                       @ HandshakeState_name (state (epochState sample_keyed)) @ '')'')]\<rparr>)"
    by blast
  then have "handleHandshake sample_externals ?m sample_keyed =
     Inr (sample_keyed\<lparr>handshakeSequence := 5,
            trace := trace sample_keyed @
              [ConsoleLog ''DTLS Handshake (HelloVerifyRequest)'',
               ConsoleLog ''Dropping unexpected HelloVerifyRequest handshake message. State(ExpectingServerHelloDone)'']\<rparr>)"
    by (simp add: sample_message_def sample_keyed_def)
  with h1 h2 show ?thesis by blast
qed

text \<open>
  Neither \<^verbatim>\<open>handleServerKeyExchange\<close> nor the Certificate case reads the state. After
  the final flight (state \<open>ExpectingChangeCipherSpec\<close>) the ServerKeyExchange of the
  scenario, delivered again, moves the state back to \<open>ExpectingServerHelloDone\<close>;
  and a Certificate that arrives in state \<open>ExpectingServerHello\<close> is stored and moves
  the state to \<open>ExpectingServerKeyExchange\<close>.
\<close>

theorem certificate_and_key_exchange_not_state_checked:
  "state (epochState sample_finished) = ExpectingChangeCipherSpec \<and>
   map_sum id (\<lambda>s. state (epochState s))
     (handleHandshake sample_externals
        (sample_message ServerKeyExchange_t 3 [3, 0, 0x1D, 2, 8, 9, 4, 1, 5, 6, 3, 0, 0x1D, 2, 8, 9])
        sample_finished) = Inr ExpectingServerHelloDone \<and>
   state (epochState sample_connected) = ExpectingServerHello \<and>
   map_sum id (\<lambda>s. (state (epochState s), serverCertificate (epochState s)))
     (handleHandshake sample_externals (sample_message Certificate_t 2 [5, 6]) sample_connected)
     = Inr (ExpectingServerKeyExchange, Some \<lparr>publicKey = Some [5, 6]\<rparr>)"
  by (simp add: sample_connected_eq sample_finished_def sample_keyed_def handler_defs send_defs
      sample_defs Let_def)

subsection \<open>Certificate reassembly\<close>

lemma handleHandshakes_append:
  "handleHandshakes x (ms @ ms') this =
     (case handleHandshakes x ms this of Inl e \<Rightarrow> Inl e | Inr s \<Rightarrow> handleHandshakes x ms' s)"
  by (induction ms arbitrary: this) (simp_all split: sum.splits)

lemma handleCertificate_keeps:
  "certificateFragments (epochState (handleCertificate c this)) = certificateFragments (epochState this) \<and>
   certificateFragmentDataRecv (epochState (handleCertificate c this)) =
     certificateFragmentDataRecv (epochState this) \<and>
   deserialized (trace (handleCertificate c this)) = deserialized (trace this)"
  by (simp add: handleCertificate_def console_log_def deserialized_append Let_def split: option.splits)

lemma console_log_keeps:
  "epochState (console_log msg this) = epochState this \<and>
   deserialized (trace (console_log msg this)) = deserialized (trace this) \<and>
   sends (trace (console_log msg this)) = sends (trace this)"
  by (simp add: console_log_def deserialized_append sends_append)

lemma fragment_step:
  assumes "handshakeType f = Certificate_t" and "fullLength f = n" and "length (buffer f) \<noteq> n"
    and "fragmentOffset f + length (buffer f) \<le> n"
    and "length (reassembly_buffer n this) = n"
  shows "\<exists>this'. handleHandshake x f this = Inr this' \<and>
      (if certificateFragmentDataRecv (epochState this) + length (buffer f) = n
       then certificateFragments (epochState this') = None \<and>
            certificateFragmentDataRecv (epochState this') = 0 \<and>
            deserialized (trace this') = deserialized (trace this) @ [placed f (reassembly_buffer n this)]
       else certificateFragments (epochState this') = Some (placed f (reassembly_buffer n this)) \<and>
            certificateFragmentDataRecv (epochState this') =
              certificateFragmentDataRecv (epochState this) + length (buffer f) \<and>
            deserialized (trace this') = deserialized (trace this))"
proof -
  let ?s = "(console_log ''DTLS Handshake (Certificate)'' this)\<lparr>handshakeSequence := messageSequence f\<rparr>"
  have start: "handleHandshake x f this = handleCertificateMessage x f ?s"
    using assms(1) by (simp add: handleHandshake_def Let_def)
  have same: "epochState ?s = epochState this" "deserialized (trace ?s) = deserialized (trace this)"
    by (simp_all add: console_log_def deserialized_append)
  have buf: "reassembly_buffer n ?s = reassembly_buffer n this"
    by (simp add: reassembly_buffer_def same)
  have set: "Uint8Array_set (reassembly_buffer n this) (buffer f) (fragmentOffset f)
      = Inr (placed f (reassembly_buffer n this))"
    using assms(4,5) by (simp add: Uint8Array_set_def placed_def)
  show ?thesis
    unfolding start
    using assms(2,3) set handleCertificate_keeps
    by (simp add: handleCertificateMessage_def same console_log_keeps reassembly_buffer_def [symmetric]
        deserialize_certificate_def deserialized_append Let_def)
qed

lemma placed_length:
  "fragmentOffset f + length (buffer f) \<le> length b \<Longrightarrow> length (placed f b) = length b"
  by (simp add: placed_def)

lemma foldl_placed_length:
  "\<forall>f\<in>set fs. fragmentOffset f + length (buffer f) \<le> length b \<Longrightarrow>
   length (foldl (\<lambda>b f. placed f b) b fs) = length b"
  by (induction fs arbitrary: b) (simp_all add: placed_length)

lemma partial_run:
  assumes "\<forall>f\<in>set ps. handshakeType f = Certificate_t \<and> fullLength f = n \<and>
             length (buffer f) \<noteq> n \<and> fragmentOffset f + length (buffer f) \<le> n"
    and "certificateFragmentDataRecv (epochState this) + sum_list (map (\<lambda>f. length (buffer f)) ps) < n"
    and "length (reassembly_buffer n this) = n"
  shows "\<exists>s. handleHandshakes x ps this = Inr s \<and>
     certificateFragmentDataRecv (epochState s) =
       certificateFragmentDataRecv (epochState this) + sum_list (map (\<lambda>f. length (buffer f)) ps) \<and>
     deserialized (trace s) = deserialized (trace this) \<and>
     reassembly_buffer n s = foldl (\<lambda>b f. placed f b) (reassembly_buffer n this) ps"
  using assms
proof (induction ps arbitrary: this)
  case Nil
  then show ?case by simp
next
  case (Cons f ps)
  from Cons.prems(1) have f: "handshakeType f = Certificate_t" "fullLength f = n"
    "length (buffer f) \<noteq> n" "fragmentOffset f + length (buffer f) \<le> n"
    by simp_all
  from Cons.prems(2) have ne: "certificateFragmentDataRecv (epochState this) + length (buffer f) \<noteq> n"
    by simp
  from fragment_step [OF f Cons.prems(3), of x] ne
  obtain s1 where s1: "handleHandshake x f this = Inr s1"
    and frag: "certificateFragments (epochState s1) = Some (placed f (reassembly_buffer n this))"
    and recv: "certificateFragmentDataRecv (epochState s1) =
              certificateFragmentDataRecv (epochState this) + length (buffer f)"
    and des: "deserialized (trace s1) = deserialized (trace this)"
    by auto
  from frag have buf: "reassembly_buffer n s1 = placed f (reassembly_buffer n this)"
    by (simp add: reassembly_buffer_def)
  with f(4) Cons.prems(3) have len: "length (reassembly_buffer n s1) = n"
    by (simp add: placed_length)
  from Cons.prems(1) have rest: "\<forall>f\<in>set ps. handshakeType f = Certificate_t \<and> fullLength f = n \<and>
             length (buffer f) \<noteq> n \<and> fragmentOffset f + length (buffer f) \<le> n"
    by simp
  from Cons.prems(2) recv
  have lt: "certificateFragmentDataRecv (epochState s1) + sum_list (map (\<lambda>f. length (buffer f)) ps) < n"
    by simp
  from Cons.IH [OF rest lt len] s1 recv des buf show ?case
    by (auto simp: add.assoc)
qed

lemma full_run:
  assumes "\<forall>f\<in>set (ps @ [f]). handshakeType f = Certificate_t \<and> fullLength f = n \<and>
             length (buffer f) \<noteq> n \<and> fragmentOffset f + length (buffer f) \<le> n"
    and "buffer f \<noteq> []"
    and "certificateFragmentDataRecv (epochState this) + sum_list (map (\<lambda>f. length (buffer f)) (ps @ [f])) = n"
    and "length (reassembly_buffer n this) = n"
  shows "\<exists>s. handleHandshakes x (ps @ [f]) this = Inr s \<and>
     certificateFragments (epochState s) = None \<and>
     certificateFragmentDataRecv (epochState s) = 0 \<and>
     deserialized (trace s) = deserialized (trace this) @
       [foldl (\<lambda>b f. placed f b) (reassembly_buffer n this) (ps @ [f])]"
proof -
  from assms(1) have ps: "\<forall>f\<in>set ps. handshakeType f = Certificate_t \<and> fullLength f = n \<and>
             length (buffer f) \<noteq> n \<and> fragmentOffset f + length (buffer f) \<le> n"
    and f: "handshakeType f = Certificate_t" "fullLength f = n"
    "length (buffer f) \<noteq> n" "fragmentOffset f + length (buffer f) \<le> n"
    by simp_all
  from assms(2,3)
  have lt: "certificateFragmentDataRecv (epochState this) + sum_list (map (\<lambda>f. length (buffer f)) ps) < n"
    by (cases "buffer f") auto
  from partial_run [OF ps lt assms(4), of x]
  obtain s1 where s1: "handleHandshakes x ps this = Inr s1"
    and recv: "certificateFragmentDataRecv (epochState s1) =
       certificateFragmentDataRecv (epochState this) + sum_list (map (\<lambda>f. length (buffer f)) ps)"
    and des: "deserialized (trace s1) = deserialized (trace this)"
    and buf: "reassembly_buffer n s1 = foldl (\<lambda>b f. placed f b) (reassembly_buffer n this) ps"
    by blast
  from ps assms(4) have "length (foldl (\<lambda>b f. placed f b) (reassembly_buffer n this) ps) = n"
    by (simp add: foldl_placed_length)
  with buf have len: "length (reassembly_buffer n s1) = n" by simp
  from recv assms(3) have eq: "certificateFragmentDataRecv (epochState s1) + length (buffer f) = n"
    by simp
  from fragment_step [OF f len, of x] eq
  obtain s2 where "handleHandshake x f s1 = Inr s2"
    and "certificateFragments (epochState s2) = None"
    and "certificateFragmentDataRecv (epochState s2) = 0"
    and "deserialized (trace s2) = deserialized (trace s1) @ [placed f (reassembly_buffer n s1)]"
    by auto
  with s1 des buf show ?thesis
    by (simp add: handleHandshakes_append)
qed

lemma single_run:
  assumes "handshakeType f = Certificate_t" and "fullLength f = length (buffer f)"
  shows "\<exists>s. handleHandshakes x [f] this = Inr s \<and>
     certificateFragments (epochState s) = certificateFragments (epochState this) \<and>
     certificateFragmentDataRecv (epochState s) = certificateFragmentDataRecv (epochState this) \<and>
     deserialized (trace s) = deserialized (trace this) @ [buffer f]"
  using assms handleCertificate_keeps
  by (simp add: handleHandshake_def handleCertificateMessage_def deserialize_certificate_def
      console_log_keeps deserialized_append Let_def)

lemma slice_at_nth:
  assumes "j < length (buffer f)" and "fragmentOffset f + length (buffer f) \<le> length b"
  shows "slice_at f b ! j = b ! (fragmentOffset f + j)"
  using assms by (simp add: slice_at_def)

lemma slice_at_placed_same:
  assumes "fragmentOffset f + length (buffer f) \<le> length b"
  shows "slice_at f (placed f b) = buffer f"
  using assms by (simp add: slice_at_def placed_def)

lemma placed_nth_outside:
  assumes "fragmentOffset f + length (buffer f) \<le> length b" and "i < length b"
    and "i \<notin> covered f"
  shows "placed f b ! i = b ! i"
proof (cases "i < fragmentOffset f")
  case True
  then show ?thesis using assms by (simp add: placed_def nth_append)
next
  case False
  with assms(3) have ge: "fragmentOffset f + length (buffer f) \<le> i"
    by (simp add: covered_def)
  then have a: "\<not> i - fragmentOffset f < length (buffer f)"
    and b: "fragmentOffset f + length (buffer f) + (i - fragmentOffset f - length (buffer f)) = i"
    by arith+
  from False a b assms(1,2) show ?thesis
    by (simp add: placed_def nth_append min_def)
qed

lemma slice_at_placed_other:
  assumes f: "fragmentOffset f + length (buffer f) \<le> length b"
    and g: "fragmentOffset g + length (buffer g) \<le> length b"
    and disj: "covered f \<inter> covered g = {}"
  shows "slice_at g (placed f b) = slice_at g b"
proof (rule nth_equalityI)
  show "length (slice_at g (placed f b)) = length (slice_at g b)"
    using f g by (simp add: slice_at_def placed_length)
next
  fix j assume "j < length (slice_at g (placed f b))"
  with f g have j: "j < length (buffer g)"
    by (simp add: slice_at_def placed_length)
  then have "fragmentOffset g + j \<in> covered g" by (simp add: covered_def)
  with disj have out: "fragmentOffset g + j \<notin> covered f" by blast
  from j g have lt: "fragmentOffset g + j < length b" by simp
  from j g f have "slice_at g (placed f b) ! j = placed f b ! (fragmentOffset g + j)"
    by (simp add: slice_at_nth placed_length)
  also from placed_nth_outside [OF f lt out] have "\<dots> = b ! (fragmentOffset g + j)" .
  also from j g have "\<dots> = slice_at g b ! j" by (simp add: slice_at_nth)
  finally show "slice_at g (placed f b) ! j = slice_at g b ! j" .
qed

lemma foldl_placed_slices:
  assumes "\<forall>f\<in>set fs. fragmentOffset f + length (buffer f) \<le> length b"
    and "\<forall>f\<in>set fs. \<forall>g\<in>set fs. f = g \<or> covered f \<inter> covered g = {}"
  shows "\<forall>g\<in>set fs. slice_at g (foldl (\<lambda>b f. placed f b) b fs) = buffer g"
  using assms
proof (induction fs rule: rev_induct)
  case Nil
  show ?case by simp
next
  case (snoc f fs)
  let ?b = "foldl (\<lambda>b f. placed f b) b fs"
  from snoc.prems(1) have len: "length ?b = length b"
    by (simp add: foldl_placed_length)
  from snoc.prems(1) have f: "fragmentOffset f + length (buffer f) \<le> length ?b"
    by (simp add: len)
  from snoc.prems have ih: "\<forall>g\<in>set fs. slice_at g ?b = buffer g"
    by (intro snoc.IH) auto
  show ?case
  proof
    fix g assume g: "g \<in> set (fs @ [f])"
    show "slice_at g (foldl (\<lambda>b f. placed f b) b (fs @ [f])) = buffer g"
    proof (cases "g = f")
      case True
      with f show ?thesis by (simp add: slice_at_placed_same)
    next
      case False
      with g have gin: "g \<in> set fs" by simp
      from False g snoc.prems(2) have disj: "covered f \<inter> covered g = {}" by auto
      from gin snoc.prems(1) have gfit: "fragmentOffset g + length (buffer g) \<le> length ?b"
        by (simp add: len)
      from slice_at_placed_other [OF f gfit disj] ih gin show ?thesis by simp
    qed
  qed
qed

lemma slices_determine:
  assumes "length b = n" and "length b' = n"
    and "\<forall>f\<in>set fs. slice_at f b = buffer f \<and> slice_at f b' = buffer f"
    and "\<forall>f\<in>set fs. fragmentOffset f + length (buffer f) \<le> n"
    and "\<Union> (covered ` set fs) = {0 ..< n}"
  shows "b = b'"
proof (rule nth_equalityI)
  show "length b = length b'" using assms(1,2) by simp
next
  fix i assume "i < length b"
  with assms(1) have "i \<in> {0 ..< n}" by simp
  with assms(5) obtain f where f: "f \<in> set fs" and i: "i \<in> covered f" by blast
  define j where "j = i - fragmentOffset f"
  from i have j: "j < length (buffer f)" and ij: "i = fragmentOffset f + j"
    by (auto simp: covered_def j_def)
  from f assms(4) have fit: "fragmentOffset f + length (buffer f) \<le> n" by blast
  from slice_at_nth [OF j, of b] fit assms(1) have "b ! i = slice_at f b ! j"
    by (simp add: ij)
  moreover from slice_at_nth [OF j, of b'] fit assms(2) have "b' ! i = slice_at f b' ! j"
    by (simp add: ij)
  ultimately show "b ! i = b' ! i" using assms(3) f by simp
qed

lemma sum_lengths_card:
  assumes "distinct fs"
    and "\<forall>f\<in>set fs. \<forall>g\<in>set fs. f = g \<or> covered f \<inter> covered g = {}"
  shows "sum_list (map (\<lambda>f. length (buffer f)) fs) = card (\<Union> (covered ` set fs))"
  using assms
proof (induction fs)
  case Nil
  show ?case by simp
next
  case (Cons f fs)
  have fin: "finite (covered f)" "finite (\<Union> (covered ` set fs))"
    by (simp_all add: covered_def)
  from Cons.prems have "covered f \<inter> \<Union> (covered ` set fs) = {}" by auto
  with fin have "card (covered f \<union> \<Union> (covered ` set fs)) =
      card (covered f) + card (\<Union> (covered ` set fs))"
    by (simp add: card_Un_disjoint)
  moreover have "card (covered f) = length (buffer f)" by (simp add: covered_def)
  moreover from Cons have "sum_list (map (\<lambda>f. length (buffer f)) fs) = card (\<Union> (covered ` set fs))"
    by simp
  ultimately show ?case by simp
qed

lemma certificate_fragments_iff:
  "certificate_fragments n fs \<longleftrightarrow>
     fs \<noteq> [] \<and> distinct fs \<and>
     (\<forall>f\<in>set fs. handshakeType f = Certificate_t \<and> fullLength f = n \<and> buffer f \<noteq> []) \<and>
     (\<forall>f\<in>set fs. \<forall>g\<in>set fs. f = g \<or> covered f \<inter> covered g = {}) \<and>
     \<Union> (covered ` set fs) = {0 ..< n}"
  by (simp add: certificate_fragments_def list_all_iff)

lemma certificate_fragments_permuted:
  assumes "certificate_fragments n fs" and "mset gs = mset fs"
  shows "certificate_fragments n gs"
proof -
  from assms(2) have "set gs = set fs" by (rule mset_eq_setD)
  moreover from assms(2) have "distinct gs = distinct fs" by (rule mset_eq_imp_distinct_iff)
  moreover from assms(2) have "gs = [] \<longleftrightarrow> fs = []"
    by (metis mset_zero_iff)
  ultimately show ?thesis using assms(1) by (simp add: certificate_fragments_iff)
qed

lemma fragment_fits:
  assumes "certificate_fragments n fs" and "f \<in> set fs"
  shows "fragmentOffset f + length (buffer f) \<le> n"
proof -
  from assms have sub: "covered f \<subseteq> {0 ..< n}" and ne: "buffer f \<noteq> []"
    by (auto simp: certificate_fragments_iff)
  from ne have "fragmentOffset f + length (buffer f) - 1 \<in> covered f"
    by (cases "buffer f") (simp_all add: covered_def)
  with sub have "fragmentOffset f + length (buffer f) - 1 < n" by auto
  with ne show ?thesis by (cases "buffer f") simp_all
qed

lemma fragments_sum:
  assumes "certificate_fragments n fs"
  shows "sum_list (map (\<lambda>f. length (buffer f)) fs) = n"
  using assms sum_lengths_card [of fs] by (simp add: certificate_fragments_iff)

lemma whole_fragment_alone:
  assumes cf: "certificate_fragments n fs" and f: "f \<in> set fs" and len: "length (buffer f) = n"
  shows "fs = [f] \<and> fragmentOffset f = 0"
proof -
  from fragment_fits [OF cf f] len have off: "fragmentOffset f = 0" by simp
  with len have cov: "covered f = {0 ..< n}" by (simp add: covered_def)
  have "g = f" if g: "g \<in> set fs" for g
  proof (rule ccontr)
    assume "g \<noteq> f"
    with cf f g have "covered f \<inter> covered g = {}" by (auto simp: certificate_fragments_iff)
    moreover from cf g have "covered g \<subseteq> {0 ..< n}" by (auto simp: certificate_fragments_iff)
    ultimately have "covered g = {}" using cov by auto
    moreover from cf g have "buffer g \<noteq> []" by (simp add: certificate_fragments_iff)
    ultimately show False by (cases "buffer g") (simp_all add: covered_def)
  qed
  then have all: "\<forall>g\<in>set fs. g = f" by blast
  from cf have dist: "distinct fs" by (simp add: certificate_fragments_iff)
  have "fs = [f]"
  proof (cases fs)
    case Nil
    with f show ?thesis by simp
  next
    case (Cons a rest)
    with all have a: "a = f" by simp
    have "rest = []"
    proof (cases rest)
      case Nil
      then show ?thesis .
    next
      case (Cons c rest')
      with all \<open>fs = a # rest\<close> have "c = f" by simp
      with dist a Cons \<open>fs = a # rest\<close> show ?thesis by simp
    qed
    with a Cons show ?thesis by simp
  qed
  with off show ?thesis by simp
qed

lemma one_order:
  assumes cf: "certificate_fragments n fs"
    and clean: "certificateFragments (epochState this) = None"
      "certificateFragmentDataRecv (epochState this) = 0"
  shows "\<exists>b s. handleHandshakes x fs this = Inr s \<and>
     deserialized (trace s) = deserialized (trace this) @ [b] \<and>
     length b = n \<and> (\<forall>f\<in>set fs. slice_at f b = buffer f) \<and>
     certificateFragments (epochState s) = None \<and>
     certificateFragmentDataRecv (epochState s) = 0"
proof (cases "\<exists>f\<in>set fs. length (buffer f) = n")
  case True
  then obtain f where f: "f \<in> set fs" and len: "length (buffer f) = n" by blast
  from whole_fragment_alone [OF cf f len] have fs: "fs = [f]" and off: "fragmentOffset f = 0"
    by simp_all
  from cf f have "handshakeType f = Certificate_t" "fullLength f = length (buffer f)"
    by (simp_all add: certificate_fragments_iff len)
  from single_run [OF this, of x this] clean len off show ?thesis
    by (auto simp: fs slice_at_def)
next
  case False
  from cf have "fs \<noteq> []" by (simp add: certificate_fragments_iff)
  then obtain ps f where fs: "fs = ps @ [f]" by (cases fs rule: rev_cases) auto
  from cf False fragment_fits [OF cf]
  have ok: "\<forall>f\<in>set (ps @ [f]). handshakeType f = Certificate_t \<and> fullLength f = n \<and>
             length (buffer f) \<noteq> n \<and> fragmentOffset f + length (buffer f) \<le> n"
    unfolding fs [symmetric] by (auto simp: certificate_fragments_iff)
  from cf have ne: "buffer f \<noteq> []" by (simp add: certificate_fragments_iff fs)
  from fragments_sum [OF cf] clean(2)
  have total: "certificateFragmentDataRecv (epochState this) +
      sum_list (map (\<lambda>f. length (buffer f)) (ps @ [f])) = n"
    by (simp add: fs)
  from clean(1) have buf: "reassembly_buffer n this = replicate n 0"
    by (simp add: reassembly_buffer_def)
  then have len: "length (reassembly_buffer n this) = n" by simp
  let ?b = "foldl (\<lambda>b f. placed f b) (replicate n 0) fs"
  from full_run [OF ok ne total len, of x]
  obtain s where s: "handleHandshakes x fs this = Inr s"
    "certificateFragments (epochState s) = None"
    "certificateFragmentDataRecv (epochState s) = 0"
    "deserialized (trace s) = deserialized (trace this) @ [?b]"
    unfolding fs [symmetric] buf by blast
  from fragment_fits [OF cf] have fit: "\<forall>f\<in>set fs. fragmentOffset f + length (buffer f) \<le> length (replicate n (0::8 word))"
    by simp
  then have "length ?b = n" by (simp add: foldl_placed_length)
  moreover from cf have "\<forall>f\<in>set fs. \<forall>g\<in>set fs. f = g \<or> covered f \<inter> covered g = {}"
    by (simp add: certificate_fragments_iff)
  with fit have "\<forall>g\<in>set fs. slice_at g ?b = buffer g"
    by (rule foldl_placed_slices)
  ultimately show ?thesis using s by blast
qed

lemma none_before_last:
  assumes cf: "certificate_fragments n fs"
    and clean: "certificateFragments (epochState this) = None"
      "certificateFragmentDataRecv (epochState this) = 0"
    and split: "fs = ps @ qs" "qs \<noteq> []"
  shows "\<exists>u. handleHandshakes x ps this = Inr u \<and> deserialized (trace u) = deserialized (trace this)"
proof (cases ps)
  case Nil
  then show ?thesis by simp
next
  case (Cons p ps')
  from split(2) obtain q where q: "q \<in> set qs" by (cases qs) auto
  with cf split(1) have qne: "buffer q \<noteq> []" by (simp add: certificate_fragments_iff)
  from q have "length (buffer q) \<le> sum_list (map (\<lambda>f. length (buffer f)) qs)"
    by (simp add: member_le_sum_list)
  with qne have pos: "0 < sum_list (map (\<lambda>f. length (buffer f)) qs)"
    by (cases "buffer q") auto
  from fragments_sum [OF cf] split(1) pos
  have lt: "sum_list (map (\<lambda>f. length (buffer f)) ps) < n" by simp
  have "length (buffer f) \<noteq> n" if "f \<in> set ps" for f
  proof
    assume "length (buffer f) = n"
    moreover from that have "length (buffer f) \<le> sum_list (map (\<lambda>f. length (buffer f)) ps)"
      by (simp add: member_le_sum_list)
    ultimately show False using lt by simp
  qed
  with cf fragment_fits [OF cf] split(1)
  have ok: "\<forall>f\<in>set ps. handshakeType f = Certificate_t \<and> fullLength f = n \<and>
             length (buffer f) \<noteq> n \<and> fragmentOffset f + length (buffer f) \<le> n"
    by (auto simp: certificate_fragments_iff)
  from clean(1) have len: "length (reassembly_buffer n this) = n"
    by (simp add: reassembly_buffer_def)
  from lt clean(2) have lt': "certificateFragmentDataRecv (epochState this) +
      sum_list (map (\<lambda>f. length (buffer f)) ps) < n" by simp
  from partial_run [OF ok lt' len, of x] show ?thesis by blast
qed

text \<open>
  Claim C5, as the class has it. Let \<open>fs\<close> be the fragments of one certificate message
  of \<open>n\<close> bytes, none of them empty (not overlapping, covering the \<open>n\<close> offsets, each
  declaring the total length \<open>n\<close>), let \<open>gs\<close> be the same fragments in any other
  order, and let the reassembly buffer and counter be clear. Then either order is
  handled without an exception and hands exactly one buffer \<open>b\<close> to
  \<^verbatim>\<open>Certificate.deserialize\<close>, the same for both orders: \<open>b\<close> has \<open>n\<close> bytes and
  holds every fragment's bytes at the fragment's offset. Afterwards the buffer is unset
  and the counter is 0. As long as a fragment is still missing, nothing has been
  deserialized.
\<close>

theorem certificate_reassembly_order_independent:
  assumes "certificate_fragments n fs" and "mset gs = mset fs"
    and "certificateFragments (epochState this) = None"
    and "certificateFragmentDataRecv (epochState this) = 0"
  shows "\<exists>b s t. handleHandshakes x fs this = Inr s \<and> handleHandshakes x gs this = Inr t \<and>
     deserialized (trace s) = deserialized (trace this) @ [b] \<and>
     deserialized (trace t) = deserialized (trace this) @ [b] \<and>
     length b = n \<and> (\<forall>f\<in>set fs. slice_at f b = buffer f) \<and>
     certificateFragments (epochState s) = None \<and> certificateFragmentDataRecv (epochState s) = 0 \<and>
     certificateFragments (epochState t) = None \<and> certificateFragmentDataRecv (epochState t) = 0 \<and>
     (\<forall>ps qs. fs = ps @ qs \<and> qs \<noteq> [] \<longrightarrow>
        (\<exists>u. handleHandshakes x ps this = Inr u \<and>
             deserialized (trace u) = deserialized (trace this)))"
proof -
  from assms(1,2) have cg: "certificate_fragments n gs" by (rule certificate_fragments_permuted)
  from assms(2) have sets: "set gs = set fs" by (rule mset_eq_setD)
  from one_order [OF assms(1,3,4), of x]
  obtain b s where s: "handleHandshakes x fs this = Inr s"
    "deserialized (trace s) = deserialized (trace this) @ [b]"
    "length b = n" "\<forall>f\<in>set fs. slice_at f b = buffer f"
    "certificateFragments (epochState s) = None"
    "certificateFragmentDataRecv (epochState s) = 0"
    by blast
  from one_order [OF cg assms(3,4), of x]
  obtain b' t where t: "handleHandshakes x gs this = Inr t"
    "deserialized (trace t) = deserialized (trace this) @ [b']"
    "length b' = n" "\<forall>f\<in>set gs. slice_at f b' = buffer f"
    "certificateFragments (epochState t) = None"
    "certificateFragmentDataRecv (epochState t) = 0"
    by blast
  from assms(1) have cover: "\<Union> (covered ` set fs) = {0 ..< n}"
    by (simp add: certificate_fragments_iff)
  from fragment_fits [OF assms(1)]
  have fit: "\<forall>f\<in>set fs. fragmentOffset f + length (buffer f) \<le> n" by blast
  from s(4) t(4) sets have "\<forall>f\<in>set fs. slice_at f b = buffer f \<and> slice_at f b' = buffer f"
    by simp
  with s(3) t(3) have "b = b'" using fit cover by (rule slices_determine)
  with s t none_before_last [OF assms(1,3,4), of _ _ x] show ?thesis by blast
qed

text \<open>
  An instance of C5: a certificate of four bytes in two fragments, the second half
  first. The socket of the scenario deserializes 1, 2, 3, 4, once.
\<close>

theorem certificate_reassembly_order_independent_witness:
  "certificate_fragments 4
     [\<lparr>handshakeType = Certificate_t, fullLength = 4, messageSequence = 2, fragmentOffset = 2, buffer = [3, 4]\<rparr>,
      \<lparr>handshakeType = Certificate_t, fullLength = 4, messageSequence = 2, fragmentOffset = 0, buffer = [1, 2]\<rparr>] \<and>
   mset [\<lparr>handshakeType = Certificate_t, fullLength = 4, messageSequence = 2, fragmentOffset = 0, buffer = [1, 2]\<rparr>,
         \<lparr>handshakeType = Certificate_t, fullLength = 4, messageSequence = 2, fragmentOffset = 2, buffer = [3, 4]\<rparr>]
     = mset [\<lparr>handshakeType = Certificate_t, fullLength = 4, messageSequence = 2, fragmentOffset = 2, buffer = [3, 4]\<rparr>,
         \<lparr>handshakeType = Certificate_t, fullLength = 4, messageSequence = 2, fragmentOffset = 0, buffer = [1, 2]\<rparr>] \<and>
   certificateFragments (epochState sample_connected) = None \<and>
   certificateFragmentDataRecv (epochState sample_connected) = 0 \<and>
   (\<exists>b s t.
      handleHandshakes sample_externals
        [\<lparr>handshakeType = Certificate_t, fullLength = 4, messageSequence = 2, fragmentOffset = 2, buffer = [3, 4]\<rparr>,
         \<lparr>handshakeType = Certificate_t, fullLength = 4, messageSequence = 2, fragmentOffset = 0, buffer = [1, 2]\<rparr>]
        sample_connected = Inr s \<and>
      handleHandshakes sample_externals
        [\<lparr>handshakeType = Certificate_t, fullLength = 4, messageSequence = 2, fragmentOffset = 0, buffer = [1, 2]\<rparr>,
         \<lparr>handshakeType = Certificate_t, fullLength = 4, messageSequence = 2, fragmentOffset = 2, buffer = [3, 4]\<rparr>]
        sample_connected = Inr t \<and>
      deserialized (trace s) = [b] \<and> deserialized (trace t) = [b] \<and> length b = 4 \<and>
      certificateFragments (epochState s) = None \<and> certificateFragmentDataRecv (epochState s) = 0 \<and>
      certificateFragments (epochState t) = None \<and> certificateFragmentDataRecv (epochState t) = 0) \<and>
   map_sum id (\<lambda>s. deserialized (trace s))
     (handleHandshakes sample_externals
        [\<lparr>handshakeType = Certificate_t, fullLength = 4, messageSequence = 2, fragmentOffset = 2, buffer = [3, 4]\<rparr>,
         \<lparr>handshakeType = Certificate_t, fullLength = 4, messageSequence = 2, fragmentOffset = 0, buffer = [1, 2]\<rparr>]
        sample_connected) = Inr [[1, 2, 3, 4]]"
proof -
  let ?f = "\<lparr>handshakeType = Certificate_t, fullLength = 4, messageSequence = 2, fragmentOffset = 2, buffer = [3, 4]\<rparr>"
  let ?g = "\<lparr>handshakeType = Certificate_t, fullLength = 4, messageSequence = 2, fragmentOffset = 0, buffer = [1, 2]\<rparr>"
  have "{2 ..< 4} \<union> {0 ..< Suc (Suc 0)} = {0 ..< (4::nat)}" by auto
  then have h1: "certificate_fragments 4 [?f, ?g]"
    by (simp add: certificate_fragments_def covered_def)
  have h2: "mset [?g, ?f] = mset [?f, ?g]" by (simp add: add_mset_commute)
  have h3: "certificateFragments (epochState sample_connected) = None"
    by (simp add: sample_connected_eq)
  have h4: "certificateFragmentDataRecv (epochState sample_connected) = 0"
    by (simp add: sample_connected_eq)
  have d0: "deserialized (trace sample_connected) = []" by (simp add: sample_connected_eq)
  from certificate_reassembly_order_independent [OF h1 h2 h3 h4, of sample_externals]
  obtain b s t where "handleHandshakes sample_externals [?f, ?g] sample_connected = Inr s"
    "handleHandshakes sample_externals [?g, ?f] sample_connected = Inr t"
    "deserialized (trace s) = deserialized (trace sample_connected) @ [b]"
    "deserialized (trace t) = deserialized (trace sample_connected) @ [b]"
    "length b = 4"
    "certificateFragments (epochState s) = None" "certificateFragmentDataRecv (epochState s) = 0"
    "certificateFragments (epochState t) = None" "certificateFragmentDataRecv (epochState t) = 0"
    by blast
  then have ex: "\<exists>b s t.
      handleHandshakes sample_externals [?f, ?g] sample_connected = Inr s \<and>
      handleHandshakes sample_externals [?g, ?f] sample_connected = Inr t \<and>
      deserialized (trace s) = [b] \<and> deserialized (trace t) = [b] \<and> length b = 4 \<and>
      certificateFragments (epochState s) = None \<and> certificateFragmentDataRecv (epochState s) = 0 \<and>
      certificateFragments (epochState t) = None \<and> certificateFragmentDataRecv (epochState t) = 0"
    unfolding d0 by auto
  have ev: "map_sum id (\<lambda>s. deserialized (trace s))
     (handleHandshakes sample_externals [?f, ?g] sample_connected) = Inr [[1, 2, 3, 4]]"
    by (simp add: sample_connected_eq handler_defs send_defs sample_defs Let_def)
  from h1 h2 h3 h4 ex ev show ?thesis by blast
qed

text \<open>
  An empty fragment overlaps nothing, so the claim admits it; the class does not. The
  certificate of four bytes arrives in its two halves and an empty fragment at offset
  4. When the empty fragment comes first, the buffer is unset at the end. When it
  comes last, the certificate is complete before it arrives, and the empty fragment
  allocates a fresh buffer of four zero bytes that nothing clears. And a total length
  of 0 is covered by no fragments at all, for which nothing is deserialized.
\<close>

theorem empty_fragment_leaves_buffer:
  "covered \<lparr>handshakeType = Certificate_t, fullLength = 4, messageSequence = 2, fragmentOffset = 0, buffer = [1, 2]\<rparr>
     \<inter> covered \<lparr>handshakeType = Certificate_t, fullLength = 4, messageSequence = 2, fragmentOffset = 2, buffer = [3, 4]\<rparr> = {} \<and>
   covered \<lparr>handshakeType = Certificate_t, fullLength = 4, messageSequence = 2, fragmentOffset = 4, buffer = []\<rparr> = {} \<and>
   covered \<lparr>handshakeType = Certificate_t, fullLength = 4, messageSequence = 2, fragmentOffset = 0, buffer = [1, 2]\<rparr>
     \<union> covered \<lparr>handshakeType = Certificate_t, fullLength = 4, messageSequence = 2, fragmentOffset = 2, buffer = [3, 4]\<rparr>
     \<union> covered \<lparr>handshakeType = Certificate_t, fullLength = 4, messageSequence = 2, fragmentOffset = 4, buffer = []\<rparr>
     = {0 ..< 4} \<and>
   map_sum id
     (\<lambda>s. (certificateFragments (epochState s), certificateFragmentDataRecv (epochState s),
           deserialized (trace s)))
     (handleHandshakes sample_externals
        [\<lparr>handshakeType = Certificate_t, fullLength = 4, messageSequence = 2, fragmentOffset = 4, buffer = []\<rparr>,
         \<lparr>handshakeType = Certificate_t, fullLength = 4, messageSequence = 2, fragmentOffset = 0, buffer = [1, 2]\<rparr>,
         \<lparr>handshakeType = Certificate_t, fullLength = 4, messageSequence = 2, fragmentOffset = 2, buffer = [3, 4]\<rparr>]
        sample_connected)
     = Inr (None, 0, [[1, 2, 3, 4]]) \<and>
   map_sum id
     (\<lambda>s. (certificateFragments (epochState s), certificateFragmentDataRecv (epochState s),
           deserialized (trace s)))
     (handleHandshakes sample_externals
        [\<lparr>handshakeType = Certificate_t, fullLength = 4, messageSequence = 2, fragmentOffset = 0, buffer = [1, 2]\<rparr>,
         \<lparr>handshakeType = Certificate_t, fullLength = 4, messageSequence = 2, fragmentOffset = 2, buffer = [3, 4]\<rparr>,
         \<lparr>handshakeType = Certificate_t, fullLength = 4, messageSequence = 2, fragmentOffset = 4, buffer = []\<rparr>]
        sample_connected)
     = Inr (Some [0, 0, 0, 0], 0, [[1, 2, 3, 4]]) \<and>
   \<Union> (set (map covered [])) = {0 ..< 0} \<and>
   map_sum id (\<lambda>s. deserialized (trace s)) (handleHandshakes sample_externals [] sample_connected)
     = Inr []"
proof -
  have sets: "{0 ..< Suc (Suc 0)} \<inter> {2 ..< 4} = ({}::nat set)"
    "{0 ..< Suc (Suc 0)} \<union> {2 ..< 4} = {0 ..< (4::nat)}"
    by auto
  have replicate4: "replicate 4 (0::8 word) = [0, 0, 0, 0]"
    by (simp add: numeral_Bit0 replicate_add)
  show ?thesis
    by (simp add: sets replicate4 covered_def sample_connected_eq handler_defs send_defs
        sample_defs Let_def)
qed

subsection \<open>The promise of connect\<close>

lemma sendClientHello_keeps_promises:
  "promises (sendClientHello x r this) = promises this \<and>
   disconnectHandlers (sendClientHello x r this) = disconnectHandlers this"
  by (simp add: sendClientHello_def sendHandshakeMessage_def sendHandshakeMessage_loop_writer
      sendDtlsMessage_def socket_send_def Let_def)

lemma handleHandshake_keeps_promises:
  assumes "handleHandshake x m this = Inr this'"
  shows "promises this' = promises this \<and> disconnectHandlers this' = disconnectHandlers this"
proof (cases "handshakeType m")
  case HelloVerifyRequest_t
  with assms show ?thesis
    by (auto simp: handleHandshake_def handleHelloVerifyRequest_def sendClientHello_keeps_promises
        console_log_def Let_def split: if_splits)
next
  case ServerHello_t
  with assms show ?thesis
    by (auto simp: handleHandshake_def handleServerHello_def console_log_def Let_def split: if_splits)
next
  case Certificate_t
  with assms show ?thesis
    by (auto simp: handleHandshake_def handleCertificateMessage_def deserialize_certificate_def
        handleCertificate_def console_log_def Let_def split: if_splits option.splits sum.splits)
next
  case ServerKeyExchange_t
  with assms show ?thesis
    by (auto simp: handleHandshake_def handleServerKeyExchange_def console_log_def Let_def
        split: if_splits option.splits sum.splits)
next
  case ServerHelloDone_t
  with assms show ?thesis
    by (auto simp: handleHandshake_def handleServerHelloDone_def flight_defs send_defs Let_def
        split: if_splits option.splits)
qed (use assms in \<open>auto simp: handleHandshake_def console_log_def Let_def\<close>)

lemma handleHandshakes_keeps_promises:
  "handleHandshakes x ms this = Inr this' \<Longrightarrow>
   promises this' = promises this \<and> disconnectHandlers this' = disconnectHandlers this"
proof (induction ms arbitrary: this)
  case Nil
  then show ?case by simp
next
  case (Cons m ms)
  then obtain s where s: "handleHandshake x m this = Inr s" and r: "handleHandshakes x ms s = Inr this'"
    by (auto split: sum.splits)
  from handleHandshake_keeps_promises [OF s] Cons.IH [OF r] show ?case by simp
qed

lemma call_handlers:
  "disconnectHandlers (foldl (call_handler reason) s hs) = disconnectHandlers s \<and>
   length (promises (foldl (call_handler reason) s hs)) = length (promises s) \<and>
   (\<forall>i < length (promises s).
      promises (foldl (call_handler reason) s hs) ! i =
        (if PromiseRej i \<in> set hs \<and> promises s ! i = Pending then Rejected reason
         else promises s ! i))"
proof (induction hs arbitrary: s)
  case Nil
  show ?case by simp
next
  case (Cons h hs)
  show ?case
  proof (cases h)
    case (PromiseRej j)
    show ?thesis
      using Cons.IH [of "call_handler reason s h"]
      by (auto simp: PromiseRej nth_list_update)
  next
    case (HandlerCallback c)
    show ?thesis
      using Cons.IH [of "call_handler reason s h"]
      by (auto simp: HandlerCallback)
  qed
qed

lemma emitDisconnect_promises:
  "disconnectHandlers (emitDisconnect reason s) = disconnectHandlers s \<and>
   length (promises (emitDisconnect reason s)) = length (promises s) \<and>
   (\<forall>i < length (promises s).
      promises (emitDisconnect reason s) ! i =
        (if PromiseRej i \<in> set (disconnectHandlers s) \<and> promises s ! i = Pending
         then Rejected reason else promises s ! i))"
  unfolding emitDisconnect_def by (rule call_handlers)

lemma handleMessage_promises:
  assumes "handleMessage x r s = Inr s'"
  shows "disconnectHandlers s' = disconnectHandlers s \<and>
   length (promises s') = length (promises s) \<and>
   (\<forall>i < length (promises s).
      promises s' ! i =
        (if contentType r = Alert \<and> isFatal (alertPacket r) \<and>
            PromiseRej i \<in> set (disconnectHandlers s) \<and> promises s ! i = Pending
         then Rejected (''DTLS Alert: '' @ alertToString (alertPacket r))
         else promises s ! i))"
proof (cases "contentType r = Alert")
  case True
  let ?s = "console_log (''DTLS Record ('' @ ContentType_name (contentType r) @ '')'') s"
  have same: "promises ?s = promises s" "disconnectHandlers ?s = disconnectHandlers s"
    by (simp_all add: console_log_def)
  show ?thesis
  proof (cases "isFatal (alertPacket r)")
    case True
    with \<open>contentType r = Alert\<close> assms
    have "s' = emitDisconnect (''DTLS Alert: '' @ alertToString (alertPacket r)) ?s"
      by (simp add: handleMessage_def Let_def)
    with emitDisconnect_promises [of "''DTLS Alert: '' @ alertToString (alertPacket r)" ?s] same True
      \<open>contentType r = Alert\<close>
    show ?thesis by simp
  next
    case False
    with \<open>contentType r = Alert\<close> assms show ?thesis
      by (auto simp: handleMessage_def console_log_def Let_def)
  qed
next
  case False
  show ?thesis
  proof (cases "contentType r = Handshake")
    case True
    with assms have "handleHandshakes x (handshakeMessages r)
        (console_log (''DTLS Record ('' @ ContentType_name (contentType r) @ '')'') s) = Inr s'"
      by (simp add: handleMessage_def Let_def)
    from handleHandshakes_keeps_promises [OF this] True show ?thesis
      by (simp add: console_log_def)
  next
    case False
    with \<open>contentType r \<noteq> Alert\<close> assms show ?thesis
      by (auto simp: handleMessage_def console_log_def Let_def)
  qed
qed

lemma handleMessages_promises:
  assumes "handleMessages x rs s = Inr s'"
    and "PromiseRej i \<in> set (disconnectHandlers s)" and "i < length (promises s)"
  shows "length (promises s') = length (promises s) \<and>
     promises s' ! i =
       (if promises s ! i = Pending
        then (case fatal_alerts rs of
                [] \<Rightarrow> Pending
              | a # _ \<Rightarrow> Rejected (''DTLS Alert: '' @ alertToString a))
        else promises s ! i)"
  using assms
proof (induction rs arbitrary: s)
  case Nil
  then show ?case by (simp add: fatal_alerts_def)
next
  case (Cons r rs)
  then obtain s1 where s1: "handleMessage x r s = Inr s1" and rest: "handleMessages x rs s1 = Inr s'"
    by (auto split: sum.splits)
  from handleMessage_promises [OF s1] Cons.prems(2,3)
  have h: "disconnectHandlers s1 = disconnectHandlers s" "length (promises s1) = length (promises s)"
    "promises s1 ! i =
        (if contentType r = Alert \<and> isFatal (alertPacket r) \<and> promises s ! i = Pending
         then Rejected (''DTLS Alert: '' @ alertToString (alertPacket r))
         else promises s ! i)"
    by simp_all
  from h Cons.prems(2,3) have "PromiseRej i \<in> set (disconnectHandlers s1)" "i < length (promises s1)"
    by simp_all
  from Cons.IH [OF rest this] h show ?case
    by (auto simp: fatal_alerts_def)
qed

lemma connect_promise:
  "promises (connect x rnd this) = promises this @ [Pending] \<and>
   PromiseRej (length (promises this)) \<in> set (disconnectHandlers (connect x rnd this))"
  by (simp add: connect_def underscore_connect_def resetConnectionState_def
      sendClientHello_keeps_promises addDisconnectHandler_def set_add_def Let_def)

text \<open>
  Claim C3, as the class has it. After \<^verbatim>\<open>connect\<close> (the transport has connected)
  the promise that \<^verbatim>\<open>connect\<close> awaits is the new, last one. Whatever records arrive
  afterwards, that promise is never fulfilled: it stays pending until the first fatal
  alert and is rejected with that alert's reason from then on. Nothing else settles it;
  in particular the handshake path does not, because the promise of \<^verbatim>\<open>_connect\<close>
  never settles.
\<close>

theorem connect_rejected_by_first_fatal_alert_only:
  assumes "handleMessages x rs (connect x rnd this) = Inr this'"
  shows "length (promises this') = Suc (length (promises this)) \<and>
     promises this' ! length (promises this) =
       (case fatal_alerts rs of
          [] \<Rightarrow> Pending
        | a # _ \<Rightarrow> Rejected (''DTLS Alert: '' @ alertToString a)) \<and>
     promises this' ! length (promises this) \<noteq> Fulfilled"
proof -
  let ?i = "length (promises this)"
  from connect_promise [of x rnd this]
  have p: "promises (connect x rnd this) = promises this @ [Pending]"
    and h: "PromiseRej ?i \<in> set (disconnectHandlers (connect x rnd this))"
    by simp_all
  from p have i: "?i < length (promises (connect x rnd this))"
    and pend: "promises (connect x rnd this) ! ?i = Pending"
    by simp_all
  from handleMessages_promises [OF assms h i] pend p show ?thesis
    by (auto split: list.splits)
qed

lemma handleMessages_append:
  "handleMessages x (rs @ rs') this =
     (case handleMessages x rs this of Inl e \<Rightarrow> Inl e | Inr s \<Rightarrow> handleMessages x rs' s)"
  by (induction rs arbitrary: this) (simp_all split: sum.splits)

text \<open>
  An instance of C3: a warning, then two fatal alerts. The first fatal alert rejects
  the promise, the second changes nothing.
\<close>

theorem connect_rejected_by_first_fatal_alert_only_witness:
  "handleMessages sample_externals
     [\<lparr>contentType = Alert, alertPacket = \<lparr>isFatal = False, alertToString = ''warning''\<rparr>,
       handshakeMessages = []\<rparr>,
      \<lparr>contentType = Alert, alertPacket = \<lparr>isFatal = True, alertToString = ''handshake_failure''\<rparr>,
       handshakeMessages = []\<rparr>,
      \<lparr>contentType = Alert, alertPacket = \<lparr>isFatal = True, alertToString = ''close_notify''\<rparr>,
       handshakeMessages = []\<rparr>]
     (connect sample_externals [7, 7] (new_DtlsSocket sample_externals [9, 9]))
   = Inr (sample_connected
           \<lparr>promises := [Rejected ''DTLS Alert: handshake_failure''],
            trace := trace sample_connected @
              [ConsoleLog ''DTLS Record (Alert)'', ConsoleLog ''warning'',
               ConsoleLog ''DTLS Record (Alert)'', ConsoleLog ''DTLS Record (Alert)'']\<rparr>) \<and>
   promises (sample_connected
           \<lparr>promises := [Rejected ''DTLS Alert: handshake_failure''],
            trace := trace sample_connected @
              [ConsoleLog ''DTLS Record (Alert)'', ConsoleLog ''warning'',
               ConsoleLog ''DTLS Record (Alert)'', ConsoleLog ''DTLS Record (Alert)'']\<rparr>)
     ! length (promises (new_DtlsSocket sample_externals [9, 9]))
   = Rejected ''DTLS Alert: handshake_failure''"
proof -
  let ?rs = "[\<lparr>contentType = Alert, alertPacket = \<lparr>isFatal = False, alertToString = ''warning''\<rparr>,
       handshakeMessages = []\<rparr>,
      \<lparr>contentType = Alert, alertPacket = \<lparr>isFatal = True, alertToString = ''handshake_failure''\<rparr>,
       handshakeMessages = []\<rparr>,
      \<lparr>contentType = Alert, alertPacket = \<lparr>isFatal = True, alertToString = ''close_notify''\<rparr>,
       handshakeMessages = []\<rparr>]"
  let ?s = "sample_connected
           \<lparr>promises := [Rejected ''DTLS Alert: handshake_failure''],
            trace := trace sample_connected @
              [ConsoleLog ''DTLS Record (Alert)'', ConsoleLog ''warning'',
               ConsoleLog ''DTLS Record (Alert)'', ConsoleLog ''DTLS Record (Alert)'']\<rparr>"
  have "handleMessages sample_externals ?rs sample_connected = Inr ?s"
    by (simp add: sample_connected_eq handleMessage_def emitDisconnect_def console_log_def Let_def)
  then have h: "handleMessages sample_externals ?rs
      (connect sample_externals [7, 7] (new_DtlsSocket sample_externals [9, 9])) = Inr ?s"
    by (simp add: sample_connected_def)
  have f: "fatal_alerts ?rs = [\<lparr>isFatal = True, alertToString = ''handshake_failure''\<rparr>,
      \<lparr>isFatal = True, alertToString = ''close_notify''\<rparr>]"
    by (simp add: fatal_alerts_def)
  from connect_rejected_by_first_fatal_alert_only [OF h]
  have "promises ?s ! length (promises (new_DtlsSocket sample_externals [9, 9])) =
       (case fatal_alerts ?rs of
          [] \<Rightarrow> Pending
        | a # _ \<Rightarrow> Rejected (''DTLS Alert: '' @ alertToString a))"
    by blast
  then have "promises ?s ! length (promises (new_DtlsSocket sample_externals [9, 9]))
      = Rejected ''DTLS Alert: handshake_failure''"
    unfolding f by simp
  with h show ?thesis by blast
qed

text \<open>
  The end-to-end scenario runs to its last state and sends the final flight, and the
  promise of \<^verbatim>\<open>connect\<close> is still pending; it stays pending when the server's
  ChangeCipherSpec and Finished arrive, which the class ignores.
\<close>

theorem connect_pending_after_handshake:
  "handleMessages sample_externals (sample_server_flight @ [sample_ServerHelloDone])
     (connect sample_externals [7, 7] (new_DtlsSocket sample_externals [9, 9])) = Inr sample_finished \<and>
   state (epochState sample_finished) = ExpectingChangeCipherSpec \<and>
   promises sample_finished = [Pending] \<and>
   map_sum id promises
     (handleMessages sample_externals
        [\<lparr>contentType = ChangeCipherSpec, alertPacket = \<lparr>isFatal = False, alertToString = []\<rparr>,
          handshakeMessages = []\<rparr>,
         sample_record [sample_message Finished_t 5 [1]]]
        sample_finished) = Inr [Pending]"
proof -
  have "handleMessages sample_externals (sample_server_flight @ [sample_ServerHelloDone])
     sample_connected = Inr sample_finished"
    by (simp add: handleMessages_append sample_server_flight_run sample_ServerHelloDone_run)
  moreover have "state (epochState sample_finished) = ExpectingChangeCipherSpec"
    "promises sample_finished = [Pending]"
    by (simp_all add: sample_finished_def sample_keyed_def)
  moreover have "map_sum id promises
     (handleMessages sample_externals
        [\<lparr>contentType = ChangeCipherSpec, alertPacket = \<lparr>isFatal = False, alertToString = []\<rparr>,
          handshakeMessages = []\<rparr>,
         sample_record [sample_message Finished_t 5 [1]]]
        sample_finished) = Inr [Pending]"
    by (simp add: sample_finished_def sample_keyed_def handleMessage_def handleHandshake_def
        console_log_def sample_defs Let_def)
  ultimately show ?thesis by (simp add: sample_connected_def)
qed

subsection \<open>An invariant of the handlers\<close>

text \<open>
  The handlers maintain \<open>handshake_invariant\<close>, so the states in which the final
  flight and the key exchange are stated above (the record protection set in
  \<open>ExpectingServerHelloDone\<close>, a public key in the stored certificate) are the ones
  a connected socket can reach.
\<close>

lemma sendClientHello_epochState:
  "epochState (sendClientHello x False this) = (epochState this)\<lparr>state := ExpectingServerHello\<rparr>"
  by (simp add: sendClientHello_def sendHandshakeMessage_def sendHandshakeMessage_loop_writer
      sendDtlsMessage_def socket_send_def Let_def)

lemma invariant_console_log:
  "handshake_invariant (console_log msg this) = handshake_invariant this"
  by (simp add: handshake_invariant_def console_log_def)

lemma invariant_handshakeSequence:
  "handshake_invariant (this\<lparr>handshakeSequence := n\<rparr>) = handshake_invariant this"
  by (simp add: handshake_invariant_def)

lemma invariant_HelloVerifyRequest:
  "handshake_invariant this \<Longrightarrow> handshake_invariant (handleHelloVerifyRequest x request this)"
  by (simp add: handshake_invariant_def handleHelloVerifyRequest_def sendClientHello_epochState
      console_log_def split: option.splits)

lemma invariant_ServerHello:
  "handshake_invariant this \<Longrightarrow> handshake_invariant (handleServerHello hello this)"
  by (simp add: handshake_invariant_def handleServerHello_def console_log_def Let_def
      split: option.splits)

lemma invariant_Certificate:
  "handshake_invariant this \<Longrightarrow> handshake_invariant (handleCertificate certificate this)"
  by (simp add: handshake_invariant_def handleCertificate_def console_log_def Let_def
      split: option.splits)

lemma invariant_CertificateMessage:
  assumes inv: "handshake_invariant this" and r: "handleCertificateMessage x m this = Inr this'"
  shows "handshake_invariant this'"
proof (cases "fullLength m = length (buffer m)")
  case True
  with r have "this' = handleCertificate (Certificate_deserialize x (buffer m))
      (this\<lparr>trace := trace this @ [CertificateDeserialize (buffer m)]\<rparr>)"
    by (simp add: handleCertificateMessage_def deserialize_certificate_def)
  moreover have "handshake_invariant (this\<lparr>trace := trace this @ [CertificateDeserialize (buffer m)]\<rparr>)"
    using inv by (simp add: handshake_invariant_def)
  ultimately show ?thesis by (simp add: invariant_Certificate)
next
  case False
  let ?a = "case certificateFragments (epochState this) of
              None \<Rightarrow> replicate (fullLength m) 0 | Some fragments \<Rightarrow> fragments"
  from False r obtain fragments where
    set: "Uint8Array_set ?a (buffer m) (fragmentOffset m) = Inr fragments"
    by (cases "Uint8Array_set ?a (buffer m) (fragmentOffset m)")
      (simp_all add: handleCertificateMessage_def Let_def)
  let ?s = "this\<lparr>epochState := (epochState this)
      \<lparr>certificateFragments := Some fragments,
       certificateFragmentDataRecv := certificateFragmentDataRecv (epochState this) + length (buffer m)\<rparr>\<rparr>"
  have s: "handshake_invariant ?s"
    using inv by (simp add: handshake_invariant_def)
  show ?thesis
  proof (cases "certificateFragmentDataRecv (epochState this) + length (buffer m) = fullLength m")
    case True
    let ?h = "handleCertificate (Certificate_deserialize x fragments)
        (?s\<lparr>trace := trace this @ [CertificateDeserialize fragments]\<rparr>)"
    from True False r set
    have this': "this' = ?h\<lparr>epochState := (epochState ?h)
        \<lparr>certificateFragments := None, certificateFragmentDataRecv := 0\<rparr>\<rparr>"
      by (simp add: handleCertificateMessage_def deserialize_certificate_def Let_def)
    have "handshake_invariant (?s\<lparr>trace := trace this @ [CertificateDeserialize fragments]\<rparr>)"
      using s by (simp add: handshake_invariant_def)
    then have "handshake_invariant ?h" by (rule invariant_Certificate)
    then show ?thesis unfolding this' by (simp add: handshake_invariant_def)
  next
    case neq: False
    from neq False r set have "this' = ?s"
      by (simp add: handleCertificateMessage_def deserialize_certificate_def Let_def)
    with s show ?thesis by simp
  qed
qed

lemma invariant_ServerKeyExchange:
  assumes inv: "handshake_invariant this"
  shows "handleServerKeyExchange x ke this \<noteq> Inl TypeError \<and>
     (\<forall>this'. handleServerKeyExchange x ke this = Inr this' \<longrightarrow> handshake_invariant this')"
proof (cases "serverCertificate (epochState this)")
  case None
  with inv show ?thesis
    by (simp add: handleServerKeyExchange_def invariant_console_log)
next
  case (Some certificate)
  with inv obtain rsaKey where key: "publicKey certificate = Some rsaKey"
    by (auto simp: handshake_invariant_def)
  from inv Some key show ?thesis
    by (simp add: handleServerKeyExchange_def invariant_console_log Let_def split: option.splits)
      (simp add: handshake_invariant_def)
qed

lemma invariant_ServerHelloDone:
  assumes inv: "handshake_invariant this"
  shows "handleServerHelloDone x this \<noteq> Inl TypeError \<and>
     (\<forall>this'. handleServerHelloDone x this = Inr this' \<longrightarrow> handshake_invariant this')"
proof (cases "state (epochState this) = ExpectingServerHelloDone")
  case False
  with inv show ?thesis
    by (simp add: handleServerHelloDone_def invariant_console_log)
next
  case True
  with inv obtain rp where rp: "recordProtection (epochState this) = Some rp"
    by (auto simp: handshake_invariant_def)
  let ?s = "this\<lparr>epochState := (epochState this)\<lparr>state := ExpectingChangeCipherSpec\<rparr>\<rparr>"
  from rp have "recordProtection (epochState ?s) = Some rp" by simp
  from flight_trace [OF this, of x] True inv rp show ?thesis
    by (simp add: handleServerHelloDone_def handshake_invariant_def)
qed

lemma handleHandshake_invariant:
  assumes inv: "handshake_invariant this"
  shows "handleHandshake x m this \<noteq> Inl TypeError \<and>
     (\<forall>this'. handleHandshake x m this = Inr this' \<longrightarrow> handshake_invariant this')"
proof -
  let ?s = "(console_log (''DTLS Handshake ('' @ HandshakeType_name (handshakeType m) @ '')'') this)
      \<lparr>handshakeSequence := messageSequence m\<rparr>"
  from inv have s: "handshake_invariant ?s"
    by (simp add: invariant_handshakeSequence invariant_console_log)
  show ?thesis
  proof (cases "handshakeType m")
    case HelloVerifyRequest_t
    with invariant_HelloVerifyRequest [OF s, of x] show ?thesis
      by (simp add: handleHandshake_def Let_def)
  next
    case ServerHello_t
    with invariant_ServerHello [OF s] show ?thesis
      by (simp add: handleHandshake_def Let_def)
  next
    case Certificate_t
    have "handleCertificateMessage x m ?s \<noteq> Inl TypeError"
      by (simp add: handleCertificateMessage_def deserialize_certificate_def Uint8Array_set_def
          Let_def split: option.splits)
    with Certificate_t invariant_CertificateMessage [OF s, of x m] show ?thesis
      by (simp add: handleHandshake_def Let_def)
  next
    case ServerKeyExchange_t
    with invariant_ServerKeyExchange [OF s, of x] show ?thesis
      by (simp add: handleHandshake_def Let_def)
  next
    case ServerHelloDone_t
    with invariant_ServerHelloDone [OF s, of x] show ?thesis
      by (simp add: handleHandshake_def Let_def)
  qed (use s in \<open>simp_all add: handleHandshake_def Let_def\<close>)
qed

lemma handleHandshakes_invariant:
  "handshake_invariant this \<Longrightarrow>
   handleHandshakes x ms this \<noteq> Inl TypeError \<and>
     (\<forall>this'. handleHandshakes x ms this = Inr this' \<longrightarrow> handshake_invariant this')"
proof (induction ms arbitrary: this)
  case Nil
  then show ?case by simp
next
  case (Cons m ms)
  from handleHandshake_invariant [OF Cons.prems, of x m] Cons.IH show ?case
    by (cases "handleHandshake x m this") auto
qed

lemma handleMessage_invariant:
  assumes "handshake_invariant this"
  shows "handleMessage x r this \<noteq> Inl TypeError \<and>
     (\<forall>this'. handleMessage x r this = Inr this' \<longrightarrow> handshake_invariant this')"
proof -
  define s where "s = console_log (''DTLS Record ('' @ ContentType_name (contentType r) @ '')'') this"
  from assms have inv: "handshake_invariant s"
    by (simp add: s_def invariant_console_log)
  have dis: "handshake_invariant (emitDisconnect reason s)" for reason
    using inv by (simp add: handshake_invariant_def emitDisconnect_def call_handlers_epochState)
  have eq: "handleMessage x r this =
     (if contentType r = Alert
      then (if isFatal (alertPacket r)
            then Inr (emitDisconnect (''DTLS Alert: '' @ alertToString (alertPacket r)) s)
            else Inr (console_log (alertToString (alertPacket r)) s))
      else if contentType r = Handshake then handleHandshakes x (handshakeMessages r) s
      else Inr s)"
    by (simp add: handleMessage_def s_def Let_def)
  from handleHandshakes_invariant [OF inv, of x "handshakeMessages r"] inv dis show ?thesis
    unfolding eq by (simp add: invariant_console_log)
qed

lemma handleMessages_invariant:
  "handshake_invariant this \<Longrightarrow>
   handleMessages x rs this \<noteq> Inl TypeError \<and>
     (\<forall>this'. handleMessages x rs this = Inr this' \<longrightarrow> handshake_invariant this')"
proof (induction rs arbitrary: this)
  case Nil
  then show ?case by simp
next
  case (Cons r rs)
  from handleMessage_invariant [OF Cons.prems, of x r] Cons.IH show ?case
    by (cases "handleMessage x r this") auto
qed

lemma connect_invariant:
  "handshake_invariant (new_DtlsSocket x rnd) \<and> handshake_invariant (connect x rnd this)"
  by (simp add: handshake_invariant_def new_DtlsSocket_def connect_def underscore_connect_def
      addDisconnectHandler_def sendClientHello_epochState resetConnectionState_def Let_def)

text \<open>
  After \<^verbatim>\<open>connect\<close>, whatever records arrive, no handler raises a \<^verbatim>\<open>TypeError\<close>, and
  the invariant holds in every state reached.
\<close>

lemma no_TypeError_after_connect:
  "handleMessages x rs (connect x rnd this) \<noteq> Inl TypeError \<and>
   (\<forall>this'. handleMessages x rs (connect x rnd this) = Inr this' \<longrightarrow> handshake_invariant this')"
  using handleMessages_invariant [of "connect x rnd this" x rs] connect_invariant [of x rnd this]
  by simp

end
